theory Spec2Isabelle
  imports Complex_Main
begin

section \<open>Circuit breaker (CircuitBreaker.js)\<close>

text \<open>
  The breaker is a JavaScript object mutated in place; the model passes it explicitly.
  \<open>Date.now()\<close> is an argument of every operation that reads the clock (one reading per
  call). \<open>setTimeout\<close> in \<open>trip\<close> is recorded as the time at which the scheduled
  \<open>attemptRecovery\<close> is due, appended to \<open>recoveryTimers\<close>; events given to
  \<open>this.emit\<close> are appended to \<open>emitted\<close>.
\<close>

datatype breaker_state = CLOSED | OPEN | HALF_OPEN

datatype breaker_event =
    Tripped string int
  | RecoveryAttempt int
  | ClosedEvent int
  | ResetEvent int

record breaker_config =
  cfg_maxFailuresPerHour :: "nat option"
  cfg_maxConsecutiveFailures :: "nat option"
  cfg_cooldownMinutes :: "nat option"
  cfg_strategyDisableThreshold :: "nat option"

record CircuitBreaker =
  state :: breaker_state
  failures :: nat
  consecutiveFailures :: nat
  lastFailureTime :: "int option"
  hourlyFailures :: "(int \<times> string option) list"
  strategyFailures :: "string \<rightharpoonup> nat"
  maxFailuresPerHour :: nat
  maxConsecutiveFailures :: nat
  cooldownMinutes :: nat
  strategyDisableThreshold :: nat
  recoveryTimers :: "int list"
  emitted :: "breaker_event list"

text \<open>\<open>config.x || d\<close> on a count: an absent option and the number 0 both give \<open>d\<close>.\<close>

definition or_default :: "nat option \<Rightarrow> nat \<Rightarrow> nat" where
  "or_default v d = (case v of None \<Rightarrow> d | Some n \<Rightarrow> if n = 0 then d else n)"

definition new_CircuitBreaker :: "breaker_config \<Rightarrow> CircuitBreaker" where
  "new_CircuitBreaker config =
     \<lparr> state = CLOSED, failures = 0, consecutiveFailures = 0, lastFailureTime = None,
       hourlyFailures = [], strategyFailures = Map.empty,
       maxFailuresPerHour = or_default (cfg_maxFailuresPerHour config) 10,
       maxConsecutiveFailures = or_default (cfg_maxConsecutiveFailures config) 5,
       cooldownMinutes = or_default (cfg_cooldownMinutes config) 30,
       strategyDisableThreshold = or_default (cfg_strategyDisableThreshold config) 20,
       recoveryTimers = [], emitted = [] \<rparr>"

definition enable :: "CircuitBreaker \<Rightarrow> CircuitBreaker" where
  "enable cb = cb\<lparr>state := CLOSED\<rparr>"

definition disable :: "CircuitBreaker \<Rightarrow> CircuitBreaker" where
  "disable cb = cb\<lparr>state := OPEN\<rparr>"

definition isTripped :: "CircuitBreaker \<Rightarrow> bool" where
  "isTripped cb = (state cb = OPEN)"

definition trip :: "string \<Rightarrow> int \<Rightarrow> CircuitBreaker \<Rightarrow> CircuitBreaker" where
  "trip reason now cb =
     (if state cb = OPEN then cb
      else cb\<lparr> state := OPEN,
               emitted := emitted cb @ [Tripped reason now],
               recoveryTimers := recoveryTimers cb @ [now + int (cooldownMinutes cb) * 60 * 1000] \<rparr>)"

definition evaluateCircuit :: "int \<Rightarrow> CircuitBreaker \<Rightarrow> CircuitBreaker" where
  "evaluateCircuit now cb =
     (let oneHourAgo = now - 60 * 60 * 1000;
          cb1 = cb\<lparr>hourlyFailures := filter (\<lambda>f. fst f > oneHourAgo) (hourlyFailures cb)\<rparr>
      in if consecutiveFailures cb1 \<ge> maxConsecutiveFailures cb1
           then trip ''Max consecutive failures reached'' now cb1
         else if length (hourlyFailures cb1) \<ge> maxFailuresPerHour cb1
           then trip ''Max hourly failures reached'' now cb1
         else cb1)"

text \<open>\<open>if (strategy)\<close>: \<open>null\<close> and the empty string are falsy.\<close>

definition recordFailure :: "string option \<Rightarrow> int \<Rightarrow> CircuitBreaker \<Rightarrow> CircuitBreaker" where
  "recordFailure strategy now cb =
     (let cb1 = cb\<lparr> failures := failures cb + 1,
                    consecutiveFailures := consecutiveFailures cb + 1,
                    lastFailureTime := Some now,
                    hourlyFailures := hourlyFailures cb @ [(now, strategy)] \<rparr>;
          cb2 = (case strategy of
                   None \<Rightarrow> cb1
                 | Some s \<Rightarrow>
                     if s = [] then cb1
                     else cb1\<lparr>strategyFailures :=
                            (strategyFailures cb1)
                              (s \<mapsto> (case strategyFailures cb1 s of None \<Rightarrow> 0 | Some c \<Rightarrow> c) + 1)\<rparr>)
      in evaluateCircuit now cb2)"

definition close :: "int \<Rightarrow> CircuitBreaker \<Rightarrow> CircuitBreaker" where
  "close now cb =
     cb\<lparr>state := CLOSED, consecutiveFailures := 0, emitted := emitted cb @ [ClosedEvent now]\<rparr>"

definition recordSuccess :: "int \<Rightarrow> CircuitBreaker \<Rightarrow> CircuitBreaker" where
  "recordSuccess now cb =
     (let cb1 = cb\<lparr>consecutiveFailures := 0\<rparr>
      in if state cb1 = HALF_OPEN then close now cb1 else cb1)"

definition attemptRecovery :: "int \<Rightarrow> CircuitBreaker \<Rightarrow> CircuitBreaker" where
  "attemptRecovery now cb =
     (if state cb \<noteq> OPEN then cb
      else cb\<lparr>state := HALF_OPEN, emitted := emitted cb @ [RecoveryAttempt now]\<rparr>)"

definition shouldDisableStrategy :: "string \<Rightarrow> CircuitBreaker \<Rightarrow> bool" where
  "shouldDisableStrategy strategy cb =
     ((case strategyFailures cb strategy of None \<Rightarrow> 0 | Some c \<Rightarrow> c) \<ge> strategyDisableThreshold cb)"

definition reset :: "int \<Rightarrow> CircuitBreaker \<Rightarrow> CircuitBreaker" where
  "reset now cb =
     cb\<lparr> state := CLOSED, failures := 0, consecutiveFailures := 0, hourlyFailures := [],
         strategyFailures := Map.empty, emitted := emitted cb @ [ResetEvent now] \<rparr>"

section \<open>JavaScript numbers and BigNumber arithmetic\<close>

text \<open>
  A JavaScript number is modelled as an exact rational or one of the three special values.
  Rounding to the nearest double, overflow to \<open>Infinity\<close> and the sign of zero are not
  modelled: a division by zero takes its sign from the numerator alone.
\<close>

datatype jsnum = Fin rat | PosInf | NegInf | NaN

fun js_add :: "jsnum \<Rightarrow> jsnum \<Rightarrow> jsnum" where
  "js_add (Fin a) (Fin b) = Fin (a + b)"
| "js_add NaN _ = NaN"
| "js_add _ NaN = NaN"
| "js_add PosInf NegInf = NaN"
| "js_add NegInf PosInf = NaN"
| "js_add PosInf _ = PosInf"
| "js_add _ PosInf = PosInf"
| "js_add NegInf _ = NegInf"
| "js_add _ NegInf = NegInf"

fun js_mul :: "jsnum \<Rightarrow> jsnum \<Rightarrow> jsnum" where
  "js_mul (Fin a) (Fin b) = Fin (a * b)"
| "js_mul NaN _ = NaN"
| "js_mul _ NaN = NaN"
| "js_mul (Fin a) PosInf = (if a = 0 then NaN else if 0 < a then PosInf else NegInf)"
| "js_mul (Fin a) NegInf = (if a = 0 then NaN else if 0 < a then NegInf else PosInf)"
| "js_mul PosInf (Fin b) = (if b = 0 then NaN else if 0 < b then PosInf else NegInf)"
| "js_mul NegInf (Fin b) = (if b = 0 then NaN else if 0 < b then NegInf else PosInf)"
| "js_mul PosInf PosInf = PosInf"
| "js_mul PosInf NegInf = NegInf"
| "js_mul NegInf PosInf = NegInf"
| "js_mul NegInf NegInf = PosInf"

fun js_div :: "jsnum \<Rightarrow> jsnum \<Rightarrow> jsnum" where
  "js_div (Fin a) (Fin b) =
     (if b \<noteq> 0 then Fin (a / b) else if a = 0 then NaN else if 0 < a then PosInf else NegInf)"
| "js_div NaN _ = NaN"
| "js_div _ NaN = NaN"
| "js_div (Fin a) PosInf = Fin 0"
| "js_div (Fin a) NegInf = Fin 0"
| "js_div PosInf (Fin b) = (if 0 \<le> b then PosInf else NegInf)"
| "js_div NegInf (Fin b) = (if 0 \<le> b then NegInf else PosInf)"
| "js_div PosInf PosInf = NaN"
| "js_div PosInf NegInf = NaN"
| "js_div NegInf PosInf = NaN"
| "js_div NegInf NegInf = NaN"

text \<open>\<open>a < b\<close> on numbers; every comparison with \<open>NaN\<close> is false.\<close>

fun js_lt :: "jsnum \<Rightarrow> jsnum \<Rightarrow> bool" where
  "js_lt (Fin a) (Fin b) = (a < b)"
| "js_lt NaN _ = False"
| "js_lt _ NaN = False"
| "js_lt (Fin a) PosInf = True"
| "js_lt (Fin a) NegInf = False"
| "js_lt PosInf _ = False"
| "js_lt NegInf (Fin b) = True"
| "js_lt NegInf PosInf = True"
| "js_lt NegInf NegInf = False"

text \<open>\<open>Math.min(a, b)\<close>: \<open>NaN\<close> if either argument is.\<close>

fun js_min :: "jsnum \<Rightarrow> jsnum \<Rightarrow> jsnum" where
  "js_min NaN _ = NaN"
| "js_min _ NaN = NaN"
| "js_min a b = (if js_lt b a then b else a)"

text \<open>
  An ethers \<open>BigNumber\<close> is an unbounded integer. \<open>div\<close> throws on a zero divisor and
  truncates towards zero; \<open>toNumber\<close> throws when the value needs more than 53 bits.
\<close>

datatype js_error = DivisionByZero | NumericOverflow | TypeError

definition bn_quot :: "int \<Rightarrow> int \<Rightarrow> int" where
  "bn_quot a b = sgn a * sgn b * (\<bar>a\<bar> div \<bar>b\<bar>)"

definition bn_div :: "int \<Rightarrow> int \<Rightarrow> js_error + int" where
  "bn_div a b = (if b = 0 then Inl DivisionByZero else Inr (bn_quot a b))"

definition toNumber :: "int \<Rightarrow> js_error + rat" where
  "toNumber a = (if \<bar>a\<bar> < 2 ^ 53 then Inr (of_int a) else Inl NumericOverflow)"

text \<open>
  \<open>parseEther\<close> and \<open>parseUnits(_, 'gwei')\<close> of a decimal string, given as the rational it
  denotes (with at most 18, respectively 9, decimals, which ethers requires).
\<close>

definition parseEther :: "rat \<Rightarrow> int" where
  "parseEther r = \<lfloor>r * 10 ^ 18\<rfloor>"

definition parseGwei :: "rat \<Rightarrow> int" where
  "parseGwei r = \<lfloor>r * 10 ^ 9\<rfloor>"

text \<open>
  A value stored in a check is a decimal string (from \<open>formatEther\<close>, \<open>formatUnits\<close>,
  \<open>toFixed\<close>, \<open>toString\<close>) or a number. \<open>Str r\<close> is the string that denotes \<open>r\<close>;
  \<open>parseFloat\<close> reads \<open>r\<close> back.
\<close>

datatype jsval = Str rat | Numv rat

definition formatEther :: "int \<Rightarrow> jsval" where
  "formatEther x = Str (of_int x / 10 ^ 18)"

definition formatGwei :: "int \<Rightarrow> jsval" where
  "formatGwei x = Str (of_int x / 10 ^ 9)"

fun parseFloat :: "jsval \<Rightarrow> jsnum" where
  "parseFloat (Str r) = Fin r"
| "parseFloat (Numv r) = Fin r"

text \<open>Truthiness of an optional field: a non-empty string, or a number other than 0.\<close>

fun truthy :: "jsval option \<Rightarrow> bool" where
  "truthy None = False"
| "truthy (Some (Str r)) = True"
| "truthy (Some (Numv r)) = (r \<noteq> 0)"

definition truthy_str :: "string option \<Rightarrow> bool" where
  "truthy_str s = (case s of None \<Rightarrow> False | Some t \<Rightarrow> t \<noteq> [])"

text \<open>\<open>x || d\<close> on an optional number.\<close>

definition num_or :: "rat option \<Rightarrow> rat \<Rightarrow> rat" where
  "num_or v d = (case v of None \<Rightarrow> d | Some r \<Rightarrow> if r = 0 then d else r)"

text \<open>\<open>a || b\<close> on optional objects (a \<open>BigNumber\<close> is truthy even when it is zero).\<close>

definition obj_or :: "'a option \<Rightarrow> 'a option \<Rightarrow> 'a option" where
  "obj_or a b = (case a of None \<Rightarrow> b | Some x \<Rightarrow> Some x)"

text \<open>
  \<open>new Date(ms).toISOString().split('T')[0]\<close>: the calendar date, in UTC, of a time given
  in milliseconds since 1970-01-01T00:00:00Z, printed as \<open>YYYY-MM-DD\<close>. A year outside
  0..9999 is printed with its sign and six digits. \<open>civil_from_days\<close> turns a count of
  days since 1970-01-01 into year, month and day of the proleptic Gregorian calendar
  (the count is shifted to start on 0000-03-01, so that a leap day ends its year, and split
  into eras of 400 years, which all have 146097 days).
\<close>

definition digit :: "int \<Rightarrow> char" where
  "digit n = ''0123456789'' ! nat (n mod 10)"

definition pad :: "nat \<Rightarrow> int \<Rightarrow> string" where
  "pad k n = map (\<lambda>i. digit (n div 10 ^ i)) (rev [0 ..< k])"

definition civil_from_days :: "int \<Rightarrow> int \<times> int \<times> int" where
  "civil_from_days days =
     (let z = days + 719468;
          era = z div 146097;
          doe = z - era * 146097;
          yoe = (doe - doe div 1460 + doe div 36524 - doe div 146096) div 365;
          doy = doe - (365 * yoe + yoe div 4 - yoe div 100);
          mp = (5 * doy + 2) div 153;
          d = doy - (153 * mp + 2) div 5 + 1;
          m = (if mp < 10 then mp + 3 else mp - 9)
      in (yoe + era * 400 + (if m \<le> 2 then 1 else 0), m, d))"

definition toISODate :: "int \<Rightarrow> string" where
  "toISODate ms =
     (let (y, m, d) = civil_from_days (ms div 86400000)
      in (if 0 \<le> y \<and> y \<le> 9999 then pad 4 y
          else (if y < 0 then ''-'' else ''+'') @ pad 6 \<bar>y\<bar>)
         @ ''-'' @ pad 2 m @ ''-'' @ pad 2 d)"

section \<open>Risk manager (RiskManager.js)\<close>

record opportunity =
  amount :: "int option"
  inputAmount :: "int option"
  gasPrice :: "int option"
  expectedProfit :: "int option"
  netProfit :: "int option"
  gasCost :: "int option"
  tokenA :: "string option"
  tokenB :: "string option"
  path :: "string list option"
  asset :: "string option"
  dex :: "string option"
  buyDex :: "string option"
  sellDex :: "string option"
  quotes :: "string option list option"
  timestamp :: "int option"
  expiresAt :: "int option"
  kind :: string
  strategy :: string
  requiresBundle :: bool
  priority :: "string option"
  bundleTxs :: "string list"

text \<open>
  \<open>quotes\<close> keeps the \<open>dex\<close> field of each quote. \<open>timestamp\<close> is set by the strategies;
  \<open>expiresAt\<close> is the field of the data model in the specification, carried by the object
  like any other property. \<open>kind\<close> is the field \<open>type\<close>; \<open>bundleTxs\<close> is the array
  \<open>transactions\<close> of a bundle opportunity, one label per transaction.
\<close>

record risk_config =
  maxPositionETH :: "rat option"
  maxDailyLossETH :: "rat option"
  maxGasGwei :: "rat option"
  cfg_minProfitRatio :: "rat option"
  maxRiskScore :: "rat option"
  maxTokenRisk :: "rat option"
  maxDexRisk :: "rat option"
  maxSlippageBps :: "rat option"

record dailyStats =
  date :: string
  totalLoss :: int
  totalProfit :: int
  tradesExecuted :: nat
  tradesRejected :: nat

record RiskManager =
  config :: risk_config
  maxPositionSize :: int
  maxDailyLoss :: int
  maxGasPrice :: int
  minProfitRatio :: rat
  stats :: dailyStats
  tokenRiskScores :: "string \<rightharpoonup> rat"
  dexRiskScores :: "string \<rightharpoonup> rat"

definition initial_tokenRiskScores :: "string \<rightharpoonup> rat" where
  "initial_tokenRiskScores =
     [''WETH'' \<mapsto> 1, ''USDC'' \<mapsto> 1, ''USDT'' \<mapsto> 2, ''DAI'' \<mapsto> 1,
      ''WBTC'' \<mapsto> 2, ''UNI'' \<mapsto> 3, ''LINK'' \<mapsto> 3, ''AAVE'' \<mapsto> 3]"

definition initial_dexRiskScores :: "string \<rightharpoonup> rat" where
  "initial_dexRiskScores =
     [''uniswapV3'' \<mapsto> 1, ''uniswapV2'' \<mapsto> 2, ''sushiswap'' \<mapsto> 2,
      ''curve'' \<mapsto> 1, ''balancer'' \<mapsto> 2, ''bancor'' \<mapsto> 3]"

definition fresh_stats :: "string \<Rightarrow> dailyStats" where
  "fresh_stats today =
     \<lparr>date = today, totalLoss = 0, totalProfit = 0, tradesExecuted = 0, tradesRejected = 0\<rparr>"

text \<open>
  \<open>getCurrentDate\<close> reads the clock; the reading is its argument.
\<close>

definition getCurrentDate :: "int \<Rightarrow> string" where
  "getCurrentDate now = toISODate now"

text \<open>
  The constructor; \<open>today\<close> is what \<open>getCurrentDate\<close> returns when it runs. A configured
  string such as \<open>'0'\<close> is truthy, so only an absent limit takes the default;
  \<open>minProfitRatio\<close> is a number, so 0 takes the default too.
\<close>

definition new_RiskManager :: "risk_config \<Rightarrow> string \<Rightarrow> RiskManager" where
  "new_RiskManager cfg today =
     \<lparr> config = cfg,
       maxPositionSize = parseEther (case maxPositionETH cfg of None \<Rightarrow> 10 | Some r \<Rightarrow> r),
       maxDailyLoss = parseEther (case maxDailyLossETH cfg of None \<Rightarrow> 1 | Some r \<Rightarrow> r),
       maxGasPrice = parseGwei (case maxGasGwei cfg of None \<Rightarrow> 100 | Some r \<Rightarrow> r),
       minProfitRatio = num_or (cfg_minProfitRatio cfg) (3 / 2),
       stats = fresh_stats today,
       tokenRiskScores = initial_tokenRiskScores,
       dexRiskScores = initial_dexRiskScores \<rparr>"

record check =
  name :: string
  passed :: bool
  cvalue :: "jsval option"
  maxValue :: "jsval option"
  minValue :: "jsval option"
  reason :: "string option"
  weight :: rat

text \<open>
  \<open>cvalue\<close> is the field \<open>value\<close>. The fields \<open>riskyToken\<close> and \<open>riskyDex\<close> are read by
  nothing but the reason text and are left out.
\<close>

text \<open>
  The risk manager of the bot is built by \<open>new RiskManager(config.risk)\<close>, where \<open>config\<close> is
  what the \<open>config\<close> package loads: the object of \<open>config/default.json\<close>, with the keys that
  a file of the deployment or the environment sets laid over it. \<open>shipped_risk_config\<close> is
  the \<open>risk\<close> object of the repository's \<open>config/default.json\<close>; the argument of
  \<open>load_risk_config\<close> holds the keys a deployment sets (\<open>None\<close>: not set).
\<close>

definition shipped_risk_config :: risk_config where
  "shipped_risk_config =
     \<lparr> maxPositionETH = Some 10, maxDailyLossETH = Some 1, maxGasGwei = Some 100,
       cfg_minProfitRatio = Some (3 / 2), maxRiskScore = Some 7, maxTokenRisk = Some 5,
       maxDexRisk = Some 5, maxSlippageBps = Some 50 \<rparr>"

definition load_risk_config :: "risk_config \<Rightarrow> risk_config" where
  "load_risk_config deployment =
     \<lparr> maxPositionETH = obj_or (maxPositionETH deployment) (maxPositionETH shipped_risk_config),
       maxDailyLossETH = obj_or (maxDailyLossETH deployment) (maxDailyLossETH shipped_risk_config),
       maxGasGwei = obj_or (maxGasGwei deployment) (maxGasGwei shipped_risk_config),
       cfg_minProfitRatio =
         obj_or (cfg_minProfitRatio deployment) (cfg_minProfitRatio shipped_risk_config),
       maxRiskScore = obj_or (maxRiskScore deployment) (maxRiskScore shipped_risk_config),
       maxTokenRisk = obj_or (maxTokenRisk deployment) (maxTokenRisk shipped_risk_config),
       maxDexRisk = obj_or (maxDexRisk deployment) (maxDexRisk shipped_risk_config),
       maxSlippageBps = obj_or (maxSlippageBps deployment) (maxSlippageBps shipped_risk_config) \<rparr>"

text \<open>\<open>checkDailyReset\<close> reads the date off the clock; \<open>now\<close> is the reading.\<close>

definition checkDailyReset :: "int \<Rightarrow> RiskManager \<Rightarrow> RiskManager" where
  "checkDailyReset now rm =
     (let currentDate = getCurrentDate now
      in if currentDate \<noteq> date (stats rm) then rm\<lparr>stats := fresh_stats currentDate\<rparr> else rm)"

definition checkDailyLossLimit :: "RiskManager \<Rightarrow> check" where
  "checkDailyLossLimit rm =
     (let remainingLoss = maxDailyLoss rm - totalLoss (stats rm)
      in \<lparr> name = ''dailyLossLimit'', passed = (remainingLoss > 0),
           cvalue = Some (formatEther remainingLoss), maxValue = None, minValue = None,
           reason = (if remainingLoss \<le> 0 then Some ''Daily loss limit reached'' else None),
           weight = 10 \<rparr>)"

definition checkPositionSize :: "RiskManager \<Rightarrow> opportunity \<Rightarrow> check" where
  "checkPositionSize rm opp =
     (let positionSize = (case obj_or (amount opp) (inputAmount opp) of None \<Rightarrow> 0 | Some a \<Rightarrow> a);
          ok = (positionSize \<le> maxPositionSize rm)
      in \<lparr> name = ''positionSize'', passed = ok,
           cvalue = Some (formatEther positionSize),
           maxValue = Some (formatEther (maxPositionSize rm)), minValue = None,
           reason = (if \<not> ok then Some ''Position size exceeds maximum'' else None),
           weight = 8 \<rparr>)"

definition getGasPrice :: int where
  "getGasPrice = parseGwei 30"

definition checkGasPrice :: "RiskManager \<Rightarrow> opportunity \<Rightarrow> check" where
  "checkGasPrice rm opp =
     (let gp = (case gasPrice opp of None \<Rightarrow> getGasPrice | Some g \<Rightarrow> g);
          ok = (gp \<le> maxGasPrice rm)
      in \<lparr> name = ''gasPrice'', passed = ok,
           cvalue = Some (formatGwei gp),
           maxValue = Some (formatGwei (maxGasPrice rm)), minValue = None,
           reason = (if \<not> ok then Some ''Gas price too high'' else None),
           weight = 6 \<rparr>)"

text \<open>
  \<open>expectedProfit.mul(100).div(gasCost).toNumber() / 100\<close>; \<open>toFixed(2)\<close> of a number with
  two decimals prints that number.
\<close>

definition checkProfitRatio :: "RiskManager \<Rightarrow> opportunity \<Rightarrow> js_error + check" where
  "checkProfitRatio rm opp =
     (case (obj_or (expectedProfit opp) (netProfit opp), gasCost opp) of
        (Some ep, Some gc) \<Rightarrow>
          if gc = 0 then
            Inr \<lparr> name = ''profitRatio'', passed = False, cvalue = None, maxValue = None,
                  minValue = None, reason = Some ''Invalid profit calculation'', weight = 9 \<rparr>
          else
            (case bn_div (ep * 100) gc of
               Inl e \<Rightarrow> Inl e
             | Inr q \<Rightarrow>
                 (case toNumber q of
                    Inl e \<Rightarrow> Inl e
                  | Inr n \<Rightarrow>
                      let ratio = n / 100; ok = (ratio \<ge> minProfitRatio rm)
                      in Inr \<lparr> name = ''profitRatio'', passed = ok, cvalue = Some (Str ratio),
                               maxValue = None, minValue = Some (Numv (minProfitRatio rm)),
                               reason = (if \<not> ok then Some ''Profit ratio too low'' else None),
                               weight = 7 \<rparr>))
      | _ \<Rightarrow>
          Inr \<lparr> name = ''profitRatio'', passed = False, cvalue = None, maxValue = None,
                minValue = None, reason = Some ''Invalid profit calculation'', weight = 9 \<rparr>)"

text \<open>
  \<open>extractTokens\<close> and \<open>extractDexes\<close> collect into a \<open>Set\<close>, which keeps the first
  occurrence of each element in insertion order. \<open>path.forEach\<close> adds every element;
  the other fields are added only when truthy.
\<close>

definition set_add :: "'a list \<Rightarrow> 'a \<Rightarrow> 'a list" where
  "set_add xs x = (if x \<in> set xs then xs else xs @ [x])"

definition add_if :: "string list \<Rightarrow> string option \<Rightarrow> string list" where
  "add_if xs s = (if truthy_str s then set_add xs (the s) else xs)"

definition extractTokens :: "opportunity \<Rightarrow> string list" where
  "extractTokens opp =
     (let t1 = add_if [] (tokenA opp);
          t2 = add_if t1 (tokenB opp);
          t3 = (case path opp of None \<Rightarrow> t2 | Some p \<Rightarrow> foldl set_add t2 p)
      in add_if t3 (asset opp))"

definition extractDexes :: "opportunity \<Rightarrow> string list" where
  "extractDexes opp =
     (let d1 = add_if [] (dex opp);
          d2 = add_if d1 (buyDex opp);
          d3 = add_if d2 (sellDex opp)
      in case quotes opp of None \<Rightarrow> d3 | Some qs \<Rightarrow> foldl add_if d3 qs)"

text \<open>The loop of \<open>checkTokenRisk\<close> and \<open>checkDexRisk\<close>: \<open>scores.get(x) || 5\<close>, strict maximum.\<close>

fun maxRiskLoop :: "(string \<rightharpoonup> rat) \<Rightarrow> string list \<Rightarrow> rat \<times> string option \<Rightarrow> rat \<times> string option" where
  "maxRiskLoop scores [] acc = acc"
| "maxRiskLoop scores (t # ts) (maxRisk, risky) =
     (let risk = num_or (scores t) 5
      in if risk > maxRisk then maxRiskLoop scores ts (risk, Some t)
         else maxRiskLoop scores ts (maxRisk, risky))"

definition template_name :: "string option \<Rightarrow> string" where
  "template_name s = (case s of None \<Rightarrow> ''null'' | Some t \<Rightarrow> t)"

definition checkTokenRisk :: "RiskManager \<Rightarrow> opportunity \<Rightarrow> check" where
  "checkTokenRisk rm opp =
     (let (maxRisk, riskyToken) = maxRiskLoop (tokenRiskScores rm) (extractTokens opp) (0, None);
          maxAllowedRisk = num_or (maxTokenRisk (config rm)) 5;
          ok = (maxRisk \<le> maxAllowedRisk)
      in \<lparr> name = ''tokenRisk'', passed = ok, cvalue = Some (Numv maxRisk),
           maxValue = Some (Numv maxAllowedRisk), minValue = None,
           reason = (if \<not> ok then Some (''Token '' @ template_name riskyToken @ '' risk too high'')
                     else None),
           weight = 5 \<rparr>)"

definition checkDexRisk :: "RiskManager \<Rightarrow> opportunity \<Rightarrow> check" where
  "checkDexRisk rm opp =
     (let (maxRisk, riskyDex) = maxRiskLoop (dexRiskScores rm) (extractDexes opp) (0, None);
          maxAllowedRisk = num_or (maxDexRisk (config rm)) 5;
          ok = (maxRisk \<le> maxAllowedRisk)
      in \<lparr> name = ''dexRisk'', passed = ok, cvalue = Some (Numv maxRisk),
           maxValue = Some (Numv maxAllowedRisk), minValue = None,
           reason = (if \<not> ok then Some (''DEX '' @ template_name riskyDex @ '' risk too high'')
                     else None),
           weight = 4 \<rparr>)"

definition estimateSlippage :: "opportunity \<Rightarrow> rat" where
  "estimateSlippage opp =
     (let baseSlippage = 10;
          tradeSize = obj_or (amount opp) (inputAmount opp)
      in if (case tradeSize of None \<Rightarrow> False | Some t \<Rightarrow> t > parseEther 100) then baseSlippage * 2
         else if (case path opp of None \<Rightarrow> False | Some p \<Rightarrow> length p > 2)
           then baseSlippage * (3 / 2)
         else baseSlippage)"

definition checkSlippage :: "RiskManager \<Rightarrow> opportunity \<Rightarrow> check" where
  "checkSlippage rm opp =
     (let estimatedSlippage = estimateSlippage opp;
          maxSlippage = num_or (maxSlippageBps (config rm)) 50;
          ok = (estimatedSlippage \<le> maxSlippage)
      in \<lparr> name = ''slippage'', passed = ok, cvalue = Some (Numv estimatedSlippage),
           maxValue = Some (Numv maxSlippage), minValue = None,
           reason = (if \<not> ok then Some ''Slippage too high'' else None),
           weight = 6 \<rparr>)"

definition estimateLiquidity :: "opportunity \<Rightarrow> int" where
  "estimateLiquidity opp = parseEther 1000"

definition checkLiquidity :: "RiskManager \<Rightarrow> opportunity \<Rightarrow> js_error + check" where
  "checkLiquidity rm opp =
     (case obj_or (amount opp) (inputAmount opp) of
        None \<Rightarrow>
          Inr \<lparr> name = ''liquidity'', passed = True, cvalue = None, maxValue = None,
                minValue = None, reason = None, weight = 3 \<rparr>
      | Some tradeSize \<Rightarrow>
          (case bn_div (estimateLiquidity opp) tradeSize of
             Inl e \<Rightarrow> Inl e
           | Inr liquidityRatio \<Rightarrow>
               let minRatio = 10; ok = (liquidityRatio \<ge> minRatio)
               in Inr \<lparr> name = ''liquidity'', passed = ok,
                        cvalue = Some (Str (of_int liquidityRatio)), maxValue = None,
                        minValue = Some (Numv (of_int minRatio)),
                        reason = (if \<not> ok then Some ''Insufficient liquidity'' else None),
                        weight = 5 \<rparr>))"

text \<open>
  \<open>calculateRiskScore\<close>: the loop carries \<open>(totalScore, totalWeight)\<close>.
  \<open>check.weight || 1\<close> replaces a zero weight by 1.
\<close>

definition effective_weight :: "check \<Rightarrow> rat" where
  "effective_weight c = (if weight c = 0 then 1 else weight c)"

fun scoreLoop :: "check list \<Rightarrow> jsnum \<times> rat \<Rightarrow> jsnum \<times> rat" where
  "scoreLoop [] acc = acc"
| "scoreLoop (c # cs) (totalScore, totalWeight) =
     (let w = effective_weight c;
          totalWeight' = totalWeight + w
      in if \<not> passed c then scoreLoop cs (js_add totalScore (Fin (w * 10)), totalWeight')
         else if truthy (cvalue c) \<and> truthy (maxValue c) then
           (let ratio = js_div (parseFloat (the (cvalue c))) (parseFloat (the (maxValue c)))
            in scoreLoop cs (js_add totalScore (js_mul (js_mul (Fin w) ratio) (Fin 5)), totalWeight'))
         else scoreLoop cs (totalScore, totalWeight'))"

definition calculateRiskScore :: "check list \<Rightarrow> jsnum" where
  "calculateRiskScore cs =
     (let (totalScore, totalWeight) = scoreLoop cs (Fin 0, 0)
      in js_min (Fin 10) (js_div totalScore (Fin totalWeight)))"

text \<open>
  For the proofs about the score: the number a stored value denotes, what one check adds
  to \<open>totalScore\<close>, and the sum of a list of numbers from the right.
\<close>

fun num_of :: "jsval \<Rightarrow> rat" where
  "num_of (Str r) = r"
| "num_of (Numv r) = r"

definition penalty :: "check \<Rightarrow> jsnum" where
  "penalty c =
     (if \<not> passed c then Fin (effective_weight c * 10)
      else if truthy (cvalue c) \<and> truthy (maxValue c) then
        js_mul (js_mul (Fin (effective_weight c))
                  (js_div (parseFloat (the (cvalue c))) (parseFloat (the (maxValue c)))))
          (Fin 5)
      else Fin 0)"

fun js_sum :: "jsnum list \<Rightarrow> jsnum" where
  "js_sum [] = Fin 0"
| "js_sum (x # xs) = js_add x (js_sum xs)"

text \<open>
  \<open>scaled c k\<close>: if the check passed and carries both a value and a limit, the limit is
  positive and the value is at most \<open>k\<close> times the limit. The checks of this risk manager
  pass when the value is at most the limit (\<open>k = 1\<close>), which puts what a passed check adds
  to the score at 5 times its weight or less; a failed check adds 10 times its weight.
\<close>

definition scaled :: "check \<Rightarrow> rat \<Rightarrow> bool" where
  "scaled c k \<longleftrightarrow>
     (passed c \<and> truthy (cvalue c) \<and> truthy (maxValue c) \<longrightarrow>
        0 < num_of (the (maxValue c))
        \<and> num_of (the (cvalue c)) \<le> k * num_of (the (maxValue c)))"

text \<open>
  The eight checks of \<open>assessOpportunity\<close>, in the order of the array given to
  \<open>Promise.all\<close>. A check that throws rejects the whole array.
\<close>

definition run_checks :: "RiskManager \<Rightarrow> opportunity \<Rightarrow> js_error + check list" where
  "run_checks rm opp =
     (case checkProfitRatio rm opp of
        Inl e \<Rightarrow> Inl e
      | Inr profitCheck \<Rightarrow>
          (case checkLiquidity rm opp of
             Inl e \<Rightarrow> Inl e
           | Inr liquidityCheck \<Rightarrow>
               Inr [checkDailyLossLimit rm, checkPositionSize rm opp, checkGasPrice rm opp,
                    profitCheck, checkTokenRisk rm opp, checkDexRisk rm opp,
                    checkSlippage rm opp, liquidityCheck]))"

record assessment =
  approved :: bool
  score :: "jsnum option"
  checks :: "check list"
  failedChecks :: "check list"
  rejectReason :: "string option"
  positionSize :: "int option"
  assessedAt :: "int option"
  errorRaised :: "js_error option"

text \<open>
  \<open>rejectReason\<close> is the field \<open>reason\<close> of the assessment, \<open>assessedAt\<close> its
  \<open>timestamp\<close>, \<open>errorRaised\<close> its \<open>error\<close>. The position sizer is an argument:
  \<open>calculatePositionSize\<close> catches its own errors and always returns an amount.
  \<open>riskScore < this.config.maxRiskScore\<close> is false when the configuration object has no
  ceiling (a comparison with \<open>undefined\<close>). The clock is read for the date of the daily
  reset and for the timestamp of the assessment; \<open>now\<close> is its reading.
\<close>

definition assessOpportunity ::
  "(opportunity \<Rightarrow> jsnum \<Rightarrow> int) \<Rightarrow> int \<Rightarrow> RiskManager \<Rightarrow> opportunity
     \<Rightarrow> assessment \<times> RiskManager" where
  "assessOpportunity sizer now rm opp =
     (let rm1 = checkDailyReset now rm
      in case run_checks rm1 opp of
           Inl e \<Rightarrow>
             (\<lparr> approved = False, score = None, checks = [], failedChecks = [],
                rejectReason = Some ''Risk assessment error'', positionSize = None,
                assessedAt = None, errorRaised = Some e \<rparr>, rm1)
         | Inr cs \<Rightarrow>
             (let riskFactors = filter (\<lambda>c. \<not> passed c) cs;
                  riskScore = calculateRiskScore cs;
                  ok = (length riskFactors = 0
                        \<and> (case maxRiskScore (config rm1) of
                             None \<Rightarrow> False
                           | Some m \<Rightarrow> js_lt riskScore (Fin m)));
                  a = \<lparr> approved = ok, score = Some riskScore, checks = cs,
                        failedChecks = riskFactors,
                        rejectReason = (if ok then None
                                        else (case riskFactors of [] \<Rightarrow> None | c # _ \<Rightarrow> reason c)),
                        positionSize = (if ok then Some (sizer opp riskScore) else None),
                        assessedAt = Some now, errorRaised = None \<rparr>;
                  st = stats rm1
              in (a, if ok then rm1\<lparr>stats := st\<lparr>tradesExecuted := tradesExecuted st + 1\<rparr>\<rparr>
                     else rm1\<lparr>stats := st\<lparr>tradesRejected := tradesRejected st + 1\<rparr>\<rparr>)))"

text \<open>
  The outcome of an execution as \<open>Executor.execute\<close> returns it: \<open>failReason\<close> is its
  field \<open>reason\<close>. \<open>profit\<close> is absent from most failure results.
\<close>

record exec_result =
  success :: bool
  failReason :: "string option"
  profit :: "int option"

definition updateTradeResult :: "exec_result \<Rightarrow> RiskManager \<Rightarrow> js_error + RiskManager" where
  "updateTradeResult result rm =
     (if success result then
        (case profit result of
           None \<Rightarrow> Inl TypeError
         | Some p \<Rightarrow>
             let st = stats rm
             in if p > 0 then Inr (rm\<lparr>stats := st\<lparr>totalProfit := totalProfit st + p\<rparr>\<rparr>)
                else Inr (rm\<lparr>stats := st\<lparr>totalLoss := totalLoss st + \<bar>p\<bar>\<rparr>\<rparr>))
      else Inr rm)"

section \<open>Provider pool (ProviderManager.js)\<close>

text \<open>
  \<open>providers\<close> and \<open>providerStats\<close> are two \<open>Map\<close>s filled together under the same
  keys by \<open>initializeProviders\<close>; the model keeps one list, in insertion order, of each
  provider with its statistics. Latencies are milliseconds.
\<close>

record provider =
  p_name :: string
  p_priority :: rat
  requests :: nat
  errors :: nat
  latency :: "rat list"
  healthy :: bool

record ProviderManager =
  providers :: "provider list"
  primaryProvider :: "provider option"

definition avgLatency :: "provider \<Rightarrow> rat" where
  "avgLatency p =
     (if length (latency p) > 0 then sum_list (latency p) / of_nat (length (latency p)) else 100)"

definition errorRate :: "provider \<Rightarrow> rat" where
  "errorRate p = (if requests p > 0 then of_nat (errors p) / of_nat (requests p) else 0)"

definition provider_score :: "provider \<Rightarrow> rat" where
  "provider_score p = avgLatency p + (errorRate p * 1000) - (p_priority p * 10)"

text \<open>
  The loop of \<open>getBestProvider\<close>. \<open>bestScore\<close> starts as \<open>Infinity\<close>, here \<open>None\<close>,
  which every score is below.
\<close>

fun bestLoop :: "provider list \<Rightarrow> provider option \<times> rat option \<Rightarrow> provider option \<times> rat option" where
  "bestLoop [] acc = acc"
| "bestLoop (p # ps) (bestProvider, bestScore) =
     (if \<not> healthy p then bestLoop ps (bestProvider, bestScore)
      else (let score = provider_score p
            in if (case bestScore of None \<Rightarrow> True | Some b \<Rightarrow> score < b)
                 then bestLoop ps (Some p, Some score)
               else bestLoop ps (bestProvider, bestScore)))"

definition getBestProvider :: "ProviderManager \<Rightarrow> provider option" where
  "getBestProvider pm = fst (bestLoop (providers pm) (primaryProvider pm, None))"

text \<open>
  The score as the specification words it: latency minus error rate times 1000 plus
  priority times 10. It is compared with \<open>provider_score\<close>, which is the code's.
\<close>

definition spec_score :: "provider \<Rightarrow> rat" where
  "spec_score p = avgLatency p - (errorRate p * 1000) + (p_priority p * 10)"

section \<open>Chain event monitor (Monitor.js)\<close>

record tx =
  hash :: string
  to :: "string option"
  tx_value :: int
  tx_data :: string

datatype tx_source = Pending | FromBlock

datatype monitor_event =
    TransactionEvent string tx_source
  | SwapEvent string
  | LiquidationEvent string
  | FlashloanEvent string
  | LendingEvent string
  | HighValueEvent string
  | BlockEvent nat

record block =
  number :: nat
  transactions :: "tx list"

text \<open>
  \<open>targetContracts\<close>, \<open>minTransactionValue\<close> and \<open>highValueThreshold\<close> come from the
  configuration, in wei. \<open>txCache\<close> is a \<open>Map\<close> in insertion order. Decoding goes through
  the DEX and lending decoders; it is an argument of the model, returning the \<open>type\<close> of the
  decoded transaction (\<open>Some None\<close> when the decoded object has no type) or \<open>None\<close> when
  \<open>decodeTransaction\<close> returns \<open>null\<close>.
\<close>

record Monitor =
  targetContracts :: "string set"
  minTransactionValue :: int
  highValueThreshold :: int
  processedTxs :: "string set"
  txCache :: "(string \<times> tx_source) list"
  maxCacheSize :: nat
  transactionsAnalyzed :: nat
  mempoolTxAnalyzed :: nat
  blocksProcessed :: nat
  events :: "monitor_event list"

definition lower_char :: "char \<Rightarrow> char" where
  "lower_char c =
     (let n = (of_char c :: nat) in if 65 \<le> n \<and> n \<le> 90 then char_of (n + 32) else c)"

definition toLowerCase :: "string \<Rightarrow> string" where
  "toLowerCase s = map lower_char s"

definition isTargetTransaction :: "Monitor \<Rightarrow> tx \<Rightarrow> bool" where
  "isTargetTransaction m t =
     (case to t of
        None \<Rightarrow> False
      | Some a \<Rightarrow> if a = [] then False else toLowerCase a \<in> targetContracts m)"

definition isInterestingTransaction :: "Monitor \<Rightarrow> tx \<Rightarrow> bool" where
  "isInterestingTransaction m t =
     (if \<not> truthy_str (to t) then False
      else if tx_value t \<ge> minTransactionValue m then True
      else if isTargetTransaction m t then True
      else if tx_data t \<noteq> [] \<and> length (tx_data t) > 10 then True
      else False)"

definition emitSpecificEvents :: "Monitor \<Rightarrow> tx \<Rightarrow> string option \<Rightarrow> monitor_event list" where
  "emitSpecificEvents m t decodedType =
     (case decodedType of
        None \<Rightarrow> []
      | Some ty \<Rightarrow>
          if ty = ''swap'' then [SwapEvent (hash t)]
          else if ty = ''liquidation'' then [LiquidationEvent (hash t)]
          else if ty = ''flashloan'' then [FlashloanEvent (hash t)]
          else if ty = ''borrow'' \<or> ty = ''repay'' then [LendingEvent (hash t)]
          else [])
     @ (if tx_value t \<ge> highValueThreshold m then [HighValueEvent (hash t)] else [])"

definition cache_set :: "(string \<times> tx_source) list \<Rightarrow> string \<Rightarrow> tx_source \<Rightarrow> (string \<times> tx_source) list" where
  "cache_set c k v =
     (if k \<in> fst ` set c then map (\<lambda>(k', v'). if k' = k then (k', v) else (k', v')) c
      else c @ [(k, v)])"

definition processTransaction ::
  "(tx \<Rightarrow> string option option) \<Rightarrow> tx \<Rightarrow> tx_source \<Rightarrow> Monitor \<Rightarrow> Monitor" where
  "processTransaction decode t source m =
     (let m1 = m\<lparr> processedTxs := insert (hash t) (processedTxs m),
                  transactionsAnalyzed := transactionsAnalyzed m + 1 \<rparr>;
          m2 = (if source = Pending then m1\<lparr>mempoolTxAnalyzed := mempoolTxAnalyzed m1 + 1\<rparr>
                else m1)
      in if \<not> isInterestingTransaction m2 t then m2
         else (case decode t of
                 None \<Rightarrow> m2
               | Some decodedType \<Rightarrow>
                   m2\<lparr> txCache := cache_set (txCache m2) (hash t) source,
                       events := events m2 @ [TransactionEvent (hash t) source]
                                 @ emitSpecificEvents m2 t decodedType \<rparr>))"

text \<open>
  The handler registered by \<open>startPendingMonitoring\<close>. \<open>getTransaction\<close> is the provider's
  answer: \<open>None\<close> when there is no such transaction or the call throws (both end the
  handler without effect).
\<close>

definition pendingSubscription ::
  "(tx \<Rightarrow> string option option) \<Rightarrow> (string \<Rightarrow> tx option) \<Rightarrow> string \<Rightarrow> Monitor \<Rightarrow> Monitor" where
  "pendingSubscription decode getTransaction txHash m =
     (if txHash \<in> processedTxs m then m
      else (case getTransaction txHash of
              None \<Rightarrow> m
            | Some t \<Rightarrow> if isTargetTransaction m t then processTransaction decode t Pending m
                        else m))"

definition cleanupCache :: "Monitor \<Rightarrow> Monitor" where
  "cleanupCache m =
     (let m1 = (if length (txCache m) > maxCacheSize m
                then m\<lparr>txCache := drop (nat \<lceil>(of_nat (length (txCache m)) :: rat)
                                             - of_nat (maxCacheSize m) * (8 / 10)\<rceil>) (txCache m)\<rparr>
                else m)
      in if card (processedTxs m1) > 50000 then m1\<lparr>processedTxs := {}\<rparr> else m1)"

text \<open>
  The handler registered by \<open>startBlockMonitoring\<close>, for a block the provider returned.
  Every transaction of the block goes through \<open>processTransaction\<close>; nothing on this path
  reads \<open>processedTxs\<close>.
\<close>

definition blockSubscription :: "(tx \<Rightarrow> string option option) \<Rightarrow> block option \<Rightarrow> Monitor \<Rightarrow> Monitor" where
  "blockSubscription decode blk m =
     (case blk of
        None \<Rightarrow> m
      | Some b \<Rightarrow>
          (let m1 = m\<lparr>blocksProcessed := blocksProcessed m + 1\<rparr>;
               m2 = foldl (\<lambda>acc t. processTransaction decode t FromBlock acc) m1 (transactions b);
               m3 = m2\<lparr>events := events m2 @ [BlockEvent (number b)]\<rparr>
           in cleanupCache m3))"

section \<open>Execution engine (Executor.js)\<close>

text \<open>
  The executor's own state is its nonce map and its counters. \<open>trace\<close> lists, in order,
  what it signed and what it handed to a provider, relay or contract. Everything the
  executor asks of the outside world is a field of \<open>exec_env\<close>: the wallets of the bot,
  the pending transaction count of an address, the gas price, the \<open>minProfitETH\<close> of a
  strategy's configuration (\<open>None\<close>: the strategy has no configuration object;
  \<open>Some None\<close>: it has one without \<open>minProfitETH\<close>), what \<open>simulateTransaction\<close> returns or
  throws, and how signing, sending and inclusion turn out: \<open>receiptStatus\<close> is the status
  of the receipt (\<open>None\<close> when waiting for it throws), \<open>receiptGasCost\<close> is
  \<open>gasUsed * effectiveGasPrice\<close>, \<open>strategyProfit\<close> is what the strategy's own
  \<open>calculateProfit\<close> returns (\<open>None\<close> when the strategy has none) and
  \<open>flashLoanEventProfit\<close> the profit of a \<open>FlashLoanExecuted\<close> event in the receipt.
\<close>

record wallet =
  w_type :: string
  address :: string

datatype exec_action =
    SignTransaction string "int option"
  | SendTransaction
  | FlashbotsSendBundle nat
  | ContractCall

record sim_reply =
  sim_success :: bool
  sim_profit :: "int option"

record exec_env =
  wallets :: "wallet list"
  getTransactionCount :: "string \<Rightarrow> int"
  botGasPrice :: int
  minProfitETH :: "string \<Rightarrow> rat option option"
  simulateTransaction :: "js_error + sim_reply"
  signThrows :: bool
  sendThrows :: bool
  receiptStatus :: "nat option"
  receiptGasCost :: int
  strategyProfit :: "int option"
  flashLoanEventProfit :: "int option"
  bundleIncluded :: bool
  bundleProfit :: "int option"

record Executor =
  nonces :: "string \<rightharpoonup> int"
  submitted :: nat
  confirmed :: nat
  failed :: nat
  reverted :: nat
  trace :: "exec_action list"

definition new_Executor :: Executor where
  "new_Executor =
     \<lparr>nonces = Map.empty, submitted = 0, confirmed = 0, failed = 0, reverted = 0, trace = []\<rparr>"

text \<open>
  \<open>this.nonces.get(address) || await getTransactionCount(address, 'pending')\<close>: a stored 0
  is falsy and asks the chain again.
\<close>

definition getNonce :: "exec_env \<Rightarrow> string \<Rightarrow> Executor \<Rightarrow> int \<times> Executor" where
  "getNonce env addr ex =
     (let currentNonce =
            (case nonces ex addr of
               None \<Rightarrow> getTransactionCount env addr
             | Some n \<Rightarrow> if n = 0 then getTransactionCount env addr else n)
      in (currentNonce, ex\<lparr>nonces := (nonces ex)(addr \<mapsto> currentNonce + 1)\<rparr>))"

definition resetNonce :: "string \<Rightarrow> Executor \<Rightarrow> Executor" where
  "resetNonce addr ex = ex\<lparr>nonces := (nonces ex)(addr := None)\<rparr>"

definition getWallet :: "exec_env \<Rightarrow> string \<Rightarrow> wallet option" where
  "getWallet env ty = find (\<lambda>w. w_type w = ty) (wallets env)"

definition selectWallet :: "exec_env \<Rightarrow> Executor \<Rightarrow> opportunity \<Rightarrow> assessment \<Rightarrow> wallet option" where
  "selectWallet env ex opp ra =
     (let burners = filter (\<lambda>w. w_type w = ''burner'') (wallets env)
      in if ((case score ra of None \<Rightarrow> False | Some sc \<Rightarrow> js_lt (Fin 7) sc) \<or> kind opp = ''sandwich'')
            \<and> length burners > 0
         then Some (burners ! (submitted ex mod length burners))
         else getWallet env ''main'')"

text \<open>
  What \<open>buildTransaction\<close> returns, reduced to the nonces and the gas price it sets: one
  transaction, or the front-run and back-run pair of \<open>buildSandwichTxs\<close>.
\<close>

datatype built_tx = SingleTx int int | SandwichTxs int int

definition buildSandwichTxs :: "int \<Rightarrow> built_tx" where
  "buildSandwichTxs nonce = SandwichTxs nonce (nonce + 1)"

definition buildTransaction :: "exec_env \<Rightarrow> opportunity \<Rightarrow> wallet \<Rightarrow> Executor \<Rightarrow> built_tx \<times> Executor" where
  "buildTransaction env opp w ex =
     (let gp = botGasPrice env;
          (nonce, ex1) = getNonce env (address w) ex
      in if kind opp = ''sandwich'' then (buildSandwichTxs nonce, ex1)
         else (SingleTx nonce (if priority opp = Some ''high'' then bn_quot (gp * 110) 100 else gp),
               ex1))"


text \<open>\<open>simulate\<close>: the reply of the helper with \<open>profit || 0\<close>, or a failure when it throws.\<close>

datatype simulation = Simulated bool int | SimulationThrew

definition simulate :: "exec_env \<Rightarrow> simulation" where
  "simulate env =
     (case simulateTransaction env of
        Inl e \<Rightarrow> SimulationThrew
      | Inr r \<Rightarrow> Simulated (sim_success r) (case sim_profit r of None \<Rightarrow> 0 | Some p \<Rightarrow> p))"

definition failure :: "string \<Rightarrow> exec_result" where
  "failure why = \<lparr>success = False, failReason = Some why, profit = None\<rparr>"

definition calculateActualProfit :: "exec_env \<Rightarrow> opportunity \<Rightarrow> js_error + int" where
  "calculateActualProfit env opp =
     (case strategyProfit env of
        Some p \<Rightarrow> Inr p
      | None \<Rightarrow>
          (case expectedProfit opp of
             None \<Rightarrow> Inl TypeError
           | Some e \<Rightarrow> Inr (e - receiptGasCost env)))"

definition calculateFlashLoanProfit :: "exec_env \<Rightarrow> opportunity \<Rightarrow> js_error + int" where
  "calculateFlashLoanProfit env opp =
     (case flashLoanEventProfit env of
        Some p \<Rightarrow> Inr p
      | None \<Rightarrow>
          (case expectedProfit opp of
             None \<Rightarrow> Inl TypeError
           | Some e \<Rightarrow> Inr (e - receiptGasCost env)))"

definition executeStandard ::
  "exec_env \<Rightarrow> built_tx \<Rightarrow> wallet \<Rightarrow> opportunity \<Rightarrow> Executor
     \<Rightarrow> (js_error + exec_result) \<times> Executor" where
  "executeStandard env t w opp ex =
     (let ex1 = ex\<lparr>submitted := submitted ex + 1\<rparr>
      in if signThrows env then (Inl TypeError, ex1\<lparr>failed := failed ex1 + 1\<rparr>)
         else
           (let ex2 = ex1\<lparr>trace := trace ex1 @
                        [SignTransaction (address w)
                           (case t of SingleTx n g \<Rightarrow> Some n | SandwichTxs n m \<Rightarrow> None)]\<rparr>
            in if sendThrows env then (Inl TypeError, ex2\<lparr>failed := failed ex2 + 1\<rparr>)
               else
                 (let ex3 = ex2\<lparr>trace := trace ex2 @ [SendTransaction]\<rparr>
                  in case receiptStatus env of
                       None \<Rightarrow> (Inl TypeError, ex3\<lparr>failed := failed ex3 + 1\<rparr>)
                     | Some st \<Rightarrow>
                         if st = 1
                         then
                           (let ex4 = ex3\<lparr>confirmed := confirmed ex3 + 1\<rparr>
                            in case calculateActualProfit env opp of
                                 Inl e \<Rightarrow> (Inl e, ex4\<lparr>failed := failed ex4 + 1\<rparr>)
                               | Inr p \<Rightarrow>
                                   (Inr \<lparr>success = True, failReason = None, profit = Some p\<rparr>,
                                    ex4))
                         else (Inr (failure ''Transaction reverted''),
                               ex3\<lparr>reverted := reverted ex3 + 1\<rparr>))))"

text \<open>
  \<open>buildBundle\<close> takes one nonce from \<open>getNonce\<close> and gives the \<open>i\<close>-th transaction of the
  bundle the nonce \<open>nonce + i\<close>. The result lists the nonces of the signed transactions.
\<close>

definition buildBundle ::
  "exec_env \<Rightarrow> opportunity \<Rightarrow> wallet \<Rightarrow> Executor \<Rightarrow> (js_error + int list) \<times> Executor" where
  "buildBundle env opp w ex =
     (let (nonce, ex1) = getNonce env (address w) ex;
          ns = map (\<lambda>i. nonce + int i) [0 ..< length (bundleTxs opp)]
      in if signThrows env \<and> ns \<noteq> [] then (Inl TypeError, ex1)
         else (Inr ns,
               ex1\<lparr>trace := trace ex1 @ map (\<lambda>n. SignTransaction (address w) (Some n)) ns\<rparr>))"

definition executeBundle ::
  "exec_env \<Rightarrow> opportunity \<Rightarrow> wallet \<Rightarrow> Executor \<Rightarrow> (js_error + exec_result) \<times> Executor" where
  "executeBundle env opp w ex =
     (case buildBundle env opp w ex of
        (Inl e, ex1) \<Rightarrow> (Inl e, ex1)
      | (Inr ns, ex1) \<Rightarrow>
          (let ex2 = ex1\<lparr>trace := trace ex1 @ [FlashbotsSendBundle (length ns)]\<rparr>
           in if bundleIncluded env
              then (Inr \<lparr>success = True, failReason = None, profit = bundleProfit env\<rparr>,
                    ex2\<lparr>confirmed := confirmed ex2 + 1\<rparr>)
              else (Inr (failure ''Bundle not included''), ex2)))"

definition executeSandwich ::
  "exec_env \<Rightarrow> opportunity \<Rightarrow> wallet \<Rightarrow> Executor \<Rightarrow> (js_error + exec_result) \<times> Executor" where
  "executeSandwich env opp w ex =
     (if signThrows env then (Inl TypeError, ex)
      else
        (let ex1 = ex\<lparr>trace := trace ex @ [SignTransaction (address w) None,
                                             SignTransaction (address w) None,
                                             FlashbotsSendBundle 3]\<rparr>
         in if bundleIncluded env
            then (Inr \<lparr>success = True, failReason = None, profit = bundleProfit env\<rparr>, ex1)
            else (Inr (failure ''Sandwich bundle failed''), ex1)))"

definition executeFlashLoan ::
  "exec_env \<Rightarrow> opportunity \<Rightarrow> wallet \<Rightarrow> Executor \<Rightarrow> (js_error + exec_result) \<times> Executor" where
  "executeFlashLoan env opp w ex =
     (if sendThrows env then (Inl TypeError, ex)
      else
        (let ex1 = ex\<lparr>trace := trace ex @ [ContractCall]\<rparr>
         in case receiptStatus env of
              None \<Rightarrow> (Inl TypeError, ex1)
            | Some st \<Rightarrow>
                if st = 1
                then (case calculateFlashLoanProfit env opp of
                        Inl e \<Rightarrow> (Inl e, ex1)
                      | Inr p \<Rightarrow>
                          (Inr \<lparr>success = True, failReason = None, profit = Some p\<rparr>, ex1))
                else (Inr (failure ''Flash loan reverted''), ex1)))"

text \<open>
  \<open>execute\<close>. Every exception inside its \<open>try\<close> block becomes the result
  \<open>'Execution error'\<close>: a missing wallet (\<open>wallet.address\<close> on \<open>null\<close>), a strategy without
  configuration object, or a dispatch that throws. The two remote calls made while the
  transaction is built (gas price, pending transaction count) are taken to answer; a
  rejection there would end \<open>execute\<close> with the same result before the simulation runs.
\<close>

definition execute ::
  "exec_env \<Rightarrow> opportunity \<Rightarrow> assessment \<Rightarrow> Executor \<Rightarrow> exec_result \<times> Executor" where
  "execute env opp ra ex =
     (case selectWallet env ex opp ra of
        None \<Rightarrow> (failure ''Execution error'', ex)
      | Some w \<Rightarrow>
          (let (t, ex1) = buildTransaction env opp w ex
           in case simulate env of
                SimulationThrew \<Rightarrow> (failure ''Simulation failed'', ex1)
              | Simulated ok simulatedProfit \<Rightarrow>
                  if \<not> ok then (failure ''Simulation failed'', ex1)
                  else
                    (case minProfitETH env (strategy opp) of
                       None \<Rightarrow> (failure ''Execution error'', ex1)
                     | Some configured \<Rightarrow>
                         (let minProfit =
                                parseEther (case configured of None \<Rightarrow> 1 / 1000 | Some r \<Rightarrow> r)
                          in if simulatedProfit < minProfit
                             then (failure ''Profit below minimum threshold'', ex1)
                             else
                               (case (if kind opp = ''sandwich'' then executeSandwich env opp w ex1
                                      else if kind opp = ''flashloan''
                                        then executeFlashLoan env opp w ex1
                                      else if requiresBundle opp then executeBundle env opp w ex1
                                      else executeStandard env t w opp ex1) of
                                  (Inl e, ex2) \<Rightarrow> (failure ''Execution error'', ex2)
                                | (Inr result, ex2) \<Rightarrow> (result, ex2))))))"

section \<open>The bot (Bot.js)\<close>

text \<open>
  \<open>handleOpportunity\<close> runs admission, execution and bookkeeping inside one \<open>try\<close> block
  whose \<open>catch\<close> calls \<open>circuitBreaker.recordFailure()\<close>. The database is the list of
  rows written; \<open>dbThrows\<close> says whether a database call rejects. \<open>clock\<close> is the reading
  of the clock, from which the risk manager takes the date and the breaker its timestamps.
\<close>

text \<open>
  \<open>MetricsCollector.recordTrade(status, strategy, profit)\<close>, reduced to whether it throws.
  \<open>handleOpportunity\<close> passes the profit as a \<open>BigNumber\<close>. \<open>profit > 0\<close> compares the number
  its decimal string denotes; when it holds for a success, the \<open>BigNumber\<close> is given to
  \<open>inc\<close> of a prom-client gauge, which accepts a number only and throws a \<open>TypeError\<close>.
\<close>

definition recordTrade :: "string \<Rightarrow> int \<Rightarrow> js_error + unit" where
  "recordTrade status p = (if status = ''success'' \<and> 0 < p then Inl TypeError else Inr ())"

datatype db_row =
    RejectedOpportunity "string option"
  | SuccessfulTrade
  | FailedTrade "string option"

record bot_env =
  clock :: int
  sizer :: "opportunity \<Rightarrow> jsnum \<Rightarrow> int"
  exec :: exec_env
  dbThrows :: bool

record MEVBot =
  circuitBreaker :: CircuitBreaker
  riskManager :: RiskManager
  executor :: Executor
  opportunitiesAnalyzed :: nat
  successfulTrades :: nat
  failedTrades :: nat
  perfTotalProfit :: int
  db :: "db_row list"

definition on_error :: "bot_env \<Rightarrow> MEVBot \<Rightarrow> MEVBot" where
  "on_error benv b0 = b0\<lparr>circuitBreaker := recordFailure None (clock benv) (circuitBreaker b0)\<rparr>"

definition handleOpportunity :: "bot_env \<Rightarrow> opportunity \<Rightarrow> string \<Rightarrow> MEVBot \<Rightarrow> MEVBot" where
  "handleOpportunity benv opp strategyName b0 =
     (let b1 = b0\<lparr>opportunitiesAnalyzed := opportunitiesAnalyzed b0 + 1\<rparr>
      in if isTripped (circuitBreaker b1) then b1
         else
           (let (riskAssessment, rm) =
                  assessOpportunity (sizer benv) (clock benv) (riskManager b1) opp;
                b2 = b1\<lparr>riskManager := rm\<rparr>
            in if \<not> approved riskAssessment then
                 (if dbThrows benv then on_error benv b2
                  else b2\<lparr>db := db b2 @ [RejectedOpportunity (rejectReason riskAssessment)]\<rparr>)
               else
                 (case expectedProfit opp of
                    None \<Rightarrow> on_error benv b2
                  | Some ep \<Rightarrow>
                      (let (result, ex) = execute (exec benv) opp riskAssessment (executor b2);
                           b3 = b2\<lparr>executor := ex\<rparr>
                       in if success result then
                            (let b4 = b3\<lparr>successfulTrades := successfulTrades b3 + 1\<rparr>
                             in case profit result of
                                  None \<Rightarrow> on_error benv b4
                                | Some p \<Rightarrow>
                                    (let b5 = b4\<lparr>perfTotalProfit := perfTotalProfit b4 + p\<rparr>
                                     in if dbThrows benv then on_error benv b5
                                        else
                                          (let b6 = b5\<lparr>db := db b5 @ [SuccessfulTrade]\<rparr>
                                           in case recordTrade ''success'' p of
                                                Inl e \<Rightarrow> on_error benv b6
                                              | Inr u \<Rightarrow> b6)))
                          else
                            (let b4 = b3\<lparr> failedTrades := failedTrades b3 + 1,
                                             circuitBreaker :=
                                               recordFailure None (clock benv) (circuitBreaker b3) \<rparr>
                             in if dbThrows benv then on_error benv b4
                                else
                                  (let b5 = b4\<lparr>db := db b4 @ [FailedTrade (failReason result)]\<rparr>
                                   in case recordTrade ''failure'' 0 of
                                        Inl e \<Rightarrow> on_error benv b5
                                      | Inr u \<Rightarrow> b5))))))"

text \<open>
  The events one call of \<open>processTransaction\<close> emits, written as a function of the
  transaction, its source and the monitor's configuration (see \<open>processTransaction_events\<close>
  below).
\<close>

definition emitted_for :: "(tx \<Rightarrow> string option option) \<Rightarrow> Monitor \<Rightarrow> tx \<Rightarrow> tx_source \<Rightarrow> monitor_event list" where
  "emitted_for decode m t source =
     (if isInterestingTransaction m t
      then (case decode t of
              None \<Rightarrow> []
            | Some ty \<Rightarrow> TransactionEvent (hash t) source # emitSpecificEvents m t ty)
      else [])"

section \<open>Sample inputs\<close>


text \<open>
  A direct arbitrage of 1 ETH between WETH and USDC on Uniswap V3, expected profit 0.02 ETH,
  gas cost 0.009 ETH, created one second after 2024-01-01T00:00:00Z (1704067200000) and
  expiring three seconds later.
\<close>

definition sample_opportunity :: opportunity where
  "sample_opportunity =
     \<lparr> amount = Some (10 ^ 18), inputAmount = None, gasPrice = None,
       expectedProfit = Some (2 * 10 ^ 16), netProfit = None, gasCost = Some (9 * 10 ^ 15),
       tokenA = Some ''WETH'', tokenB = Some ''USDC'', path = None, asset = None,
       dex = Some ''uniswapV3'', buyDex = None, sellDex = None, quotes = None,
       timestamp = Some 1704067201000, expiresAt = Some 1704067204000,
       kind = ''arbitrage'', strategy = ''arbitrage'', requiresBundle = False,
       priority = None, bundleTxs = [] \<rparr>"

definition sample_sizer :: "opportunity \<Rightarrow> jsnum \<Rightarrow> int" where
  "sample_sizer opp sc = 10 ^ 17"

definition main_wallet :: wallet where
  "main_wallet = \<lparr>w_type = ''main'', address = ''0xMAIN''\<rparr>"

text \<open>
  An environment in which the simulation succeeds with a profit of 0.02 ETH, the arbitrage
  strategy is configured with \<open>minProfitETH = 0.001\<close>, and the transaction is mined with
  status 1 at a gas cost of 0.005 ETH. The wallet has 7 pending transactions.
\<close>

definition sample_exec_env :: exec_env where
  "sample_exec_env =
     \<lparr> wallets = [main_wallet],
       getTransactionCount = (\<lambda>a. 7),
       botGasPrice = 30 * 10 ^ 9,
       minProfitETH = (\<lambda>s. if s = ''arbitrage'' then Some (Some (1 / 1000)) else None),
       simulateTransaction = Inr \<lparr>sim_success = True, sim_profit = Some (2 * 10 ^ 16)\<rparr>,
       signThrows = False, sendThrows = False, receiptStatus = Some 1,
       receiptGasCost = 5 * 10 ^ 15, strategyProfit = None, flashLoanEventProfit = None,
       bundleIncluded = True, bundleProfit = Some (15 * 10 ^ 15) \<rparr>"

text \<open>
  What \<open>simulateTransaction\<close> answers in this repository. The signer \<open>execute\<close> gives it is an
  ethers \<open>Wallet\<close> (\<open>selectWallet\<close>), which has no \<open>callStatic\<close>: reading
  \<open>signer.callStatic[transaction.method]\<close> throws inside the helper's \<open>try\<close>, and its
  \<open>catch\<close> returns \<open>success: false\<close> with no profit.
\<close>

definition wallet_exec_env :: exec_env where
  "wallet_exec_env =
     sample_exec_env\<lparr>simulateTransaction := Inr \<lparr>sim_success = False, sim_profit = None\<rparr>\<rparr>"

text \<open>
  The bot's surroundings five seconds after 2024-01-01T00:00:00Z, one second after the
  sample opportunity has expired.
\<close>

definition sample_bot_env :: bot_env where
  "sample_bot_env =
     \<lparr> clock = 1704067205000, sizer = sample_sizer, exec = wallet_exec_env,
       dbThrows = False \<rparr>"

definition no_breaker_config :: breaker_config where
  "no_breaker_config =
     \<lparr> cfg_maxFailuresPerHour = None, cfg_maxConsecutiveFailures = None,
       cfg_cooldownMinutes = None, cfg_strategyDisableThreshold = None \<rparr>"

definition new_MEVBot :: "risk_config \<Rightarrow> string \<Rightarrow> MEVBot" where
  "new_MEVBot cfg day =
     \<lparr> circuitBreaker = new_CircuitBreaker no_breaker_config,
       riskManager = new_RiskManager cfg day,
       executor = new_Executor,
       opportunitiesAnalyzed = 0, successfulTrades = 0, failedTrades = 0,
       perfTotalProfit = 0, db = [] \<rparr>"



definition sample_assessment :: assessment where
  "sample_assessment =
     fst (assessOpportunity sample_sizer 1704067205000
            (new_RiskManager shipped_risk_config ''2024-01-01'') sample_opportunity)"

text \<open>\<open>n\<close> calls of \<open>getNonce\<close> for one address, one after the other.\<close>

fun getNonces :: "nat \<Rightarrow> exec_env \<Rightarrow> string \<Rightarrow> Executor \<Rightarrow> int list \<times> Executor" where
  "getNonces 0 env addr ex = ([], ex)"
| "getNonces (Suc n) env addr ex =
     (let (x, ex1) = getNonce env addr ex;
          (xs, ex2) = getNonces n env addr ex1
      in (x # xs, ex2))"

text \<open>
  Three healthy providers of equal priority: one fast and free of errors, one as fast with
  40 errors in 100 requests, one free of errors and ten times slower.
\<close>

definition provider_fast :: provider where
  "provider_fast =
     \<lparr>p_name = ''fast'', p_priority = 1, requests = 100, errors = 0, latency = [100],
      healthy = True\<rparr>"

definition provider_faulty :: provider where
  "provider_faulty =
     \<lparr>p_name = ''faulty'', p_priority = 1, requests = 100, errors = 40, latency = [100],
      healthy = True\<rparr>"

definition provider_slow :: provider where
  "provider_slow =
     \<lparr>p_name = ''slow'', p_priority = 1, requests = 100, errors = 0, latency = [1000],
      healthy = True\<rparr>"

definition sample_pool :: ProviderManager where
  "sample_pool =
     \<lparr>providers = [provider_faulty, provider_slow, provider_fast],
      primaryProvider = Some provider_faulty\<rparr>"

text \<open>
  A swap of 12 ETH sent to a monitored router, the decoder's answer for it, and a monitor
  that watches the router with the default thresholds (0.1 ETH and 10 ETH).
\<close>

definition sample_tx :: tx where
  "sample_tx =
     \<lparr>hash = ''0xabc'', to = Some ''0xrouter'', tx_value = 12 * 10 ^ 18,
      tx_data = ''0x7ff36ab5000000''\<rparr>"

definition sample_decode :: "tx \<Rightarrow> string option option" where
  "sample_decode t = (if hash t = ''0xabc'' then Some (Some ''swap'') else None)"

definition sample_getTransaction :: "string \<Rightarrow> tx option" where
  "sample_getTransaction h = (if h = ''0xabc'' then Some sample_tx else None)"

definition sample_monitor :: Monitor where
  "sample_monitor =
     \<lparr>targetContracts = {''0xrouter''}, minTransactionValue = 10 ^ 17,
      highValueThreshold = 10 * 10 ^ 18, processedTxs = {}, txCache = [],
      maxCacheSize = 10000, transactionsAnalyzed = 0, mempoolTxAnalyzed = 0,
      blocksProcessed = 0, events = []\<rparr>"

definition sample_block :: block where
  "sample_block = \<lparr>number = 1, transactions = [sample_tx]\<rparr>"

text \<open>
  Checks as the risk manager produces them: passed, and failed instead.
\<close>

definition lossCheck_passed :: check where
  "lossCheck_passed =
     \<lparr>name = ''dailyLossLimit'', passed = True, cvalue = Some (Str 1), maxValue = None,
      minValue = None, reason = None, weight = 10\<rparr>"

definition gasCheck_passed :: check where
  "gasCheck_passed =
     \<lparr>name = ''gasPrice'', passed = True, cvalue = Some (Str 30), maxValue = Some (Str 100),
      minValue = None, reason = None, weight = 6\<rparr>"

definition gasCheck_failed :: check where
  "gasCheck_failed =
     \<lparr>name = ''gasPrice'', passed = False, cvalue = Some (Str 130), maxValue = Some (Str 100),
      minValue = None, reason = Some ''Gas price too high'', weight = 6\<rparr>"

definition profitCheck_passed :: check where
  "profitCheck_passed =
     \<lparr>name = ''profitRatio'', passed = True, cvalue = Some (Str (111 / 50)), maxValue = None,
      minValue = Some (Numv (3 / 2)), reason = None, weight = 7\<rparr>"

definition profitCheck_invalid :: check where
  "profitCheck_invalid =
     \<lparr>name = ''profitRatio'', passed = False, cvalue = None, maxValue = None,
      minValue = None, reason = Some ''Invalid profit calculation'', weight = 9\<rparr>"

section \<open>Circuit breaker: the state machine\<close>

lemma trip_state: "state (trip why now cb) = OPEN"
  by (simp add: trip_def)

lemma trip_keeps_counters:
  "consecutiveFailures (trip why now cb) = consecutiveFailures cb"
  "maxConsecutiveFailures (trip why now cb) = maxConsecutiveFailures cb"
  by (simp_all add: trip_def)

lemma trip_open_noop: "state cb = OPEN \<Longrightarrow> trip why now cb = cb"
  by (simp add: trip_def)

lemma evaluateCircuit_counters:
  "consecutiveFailures (evaluateCircuit now cb) = consecutiveFailures cb"
  "maxConsecutiveFailures (evaluateCircuit now cb) = maxConsecutiveFailures cb"
  by (simp_all add: evaluateCircuit_def Let_def trip_keeps_counters)

lemma evaluateCircuit_trips:
  "maxConsecutiveFailures cb \<le> consecutiveFailures cb \<Longrightarrow> state (evaluateCircuit now cb) = OPEN"
  by (simp add: evaluateCircuit_def Let_def trip_state)

lemma evaluateCircuit_open:
  "state cb = OPEN \<Longrightarrow> state (evaluateCircuit now cb) = OPEN"
  "state cb = OPEN \<Longrightarrow> recoveryTimers (evaluateCircuit now cb) = recoveryTimers cb"
  by (simp_all add: evaluateCircuit_def Let_def trip_def)

lemma recordFailure_counters:
  "consecutiveFailures (recordFailure s now cb) = consecutiveFailures cb + 1"
  "maxConsecutiveFailures (recordFailure s now cb) = maxConsecutiveFailures cb"
  by (simp_all add: recordFailure_def Let_def evaluateCircuit_counters split: option.splits)

lemma recordFailure_trips:
  "maxConsecutiveFailures cb \<le> consecutiveFailures cb + 1 \<Longrightarrow>
   state (recordFailure s now cb) = OPEN"
  by (simp add: recordFailure_def Let_def evaluateCircuit_trips split: option.splits)

lemma recordFailure_open:
  "state cb = OPEN \<Longrightarrow> state (recordFailure s now cb) = OPEN"
  "state cb = OPEN \<Longrightarrow> recoveryTimers (recordFailure s now cb) = recoveryTimers cb"
  by (simp_all add: recordFailure_def Let_def evaluateCircuit_open split: option.splits)

text \<open>
  C3. With \<open>maxConsecutiveFailures = 5\<close>, five \<open>recordFailure\<close> calls in a row (any
  strategies, any clock readings) take a CLOSED breaker to OPEN; \<open>recordSuccess\<close> in
  HALF_OPEN gives CLOSED with \<open>consecutiveFailures = 0\<close>; \<open>recordFailure\<close> on an OPEN
  breaker leaves it OPEN and schedules no new recovery timer.
\<close>

theorem circuit_breaker_state_machine:
  "(state cb = CLOSED \<and> maxConsecutiveFailures cb = 5 \<longrightarrow>
      state (recordFailure s5 t5 (recordFailure s4 t4 (recordFailure s3 t3
              (recordFailure s2 t2 (recordFailure s1 t1 cb))))) = OPEN)
   \<and> (state cb = HALF_OPEN \<longrightarrow>
        state (recordSuccess now cb) = CLOSED \<and> consecutiveFailures (recordSuccess now cb) = 0)
   \<and> (state cb = OPEN \<longrightarrow>
        state (recordFailure s now cb) = OPEN
        \<and> recoveryTimers (recordFailure s now cb) = recoveryTimers cb)"
proof (intro conjI impI)
  assume a: "state cb = CLOSED \<and> maxConsecutiveFailures cb = 5"
  let ?c4 = "recordFailure s4 t4 (recordFailure s3 t3
               (recordFailure s2 t2 (recordFailure s1 t1 cb)))"
  have "maxConsecutiveFailures ?c4 = 5"
    using a by (simp add: recordFailure_counters)
  moreover have "consecutiveFailures ?c4 = consecutiveFailures cb + 4"
    by (simp add: recordFailure_counters)
  ultimately have "maxConsecutiveFailures ?c4 \<le> consecutiveFailures ?c4 + 1"
    by simp
  then show "state (recordFailure s5 t5 ?c4) = OPEN"
    by (rule recordFailure_trips)
next
  assume "state cb = HALF_OPEN"
  then show "state (recordSuccess now cb) = CLOSED"
    by (simp add: recordSuccess_def close_def)
next
  assume "state cb = HALF_OPEN"
  then show "consecutiveFailures (recordSuccess now cb) = 0"
    by (simp add: recordSuccess_def close_def)
next
  assume "state cb = OPEN"
  then show "state (recordFailure s now cb) = OPEN"
    by (rule recordFailure_open)
next
  assume "state cb = OPEN"
  then show "recoveryTimers (recordFailure s now cb) = recoveryTimers cb"
    by (rule recordFailure_open)
qed

theorem circuit_breaker_state_machine_witness:
  "state (new_CircuitBreaker \<lparr>cfg_maxFailuresPerHour = None, cfg_maxConsecutiveFailures = Some 5,
            cfg_cooldownMinutes = None, cfg_strategyDisableThreshold = None\<rparr>) = CLOSED
   \<and> maxConsecutiveFailures (new_CircuitBreaker \<lparr>cfg_maxFailuresPerHour = None,
            cfg_maxConsecutiveFailures = Some 5, cfg_cooldownMinutes = None,
            cfg_strategyDisableThreshold = None\<rparr>) = 5
   \<and> state (recordFailure None 5 (recordFailure None 4 (recordFailure (Some ''arbitrage'') 3
         (recordFailure None 2 (recordFailure None 1
           (new_CircuitBreaker \<lparr>cfg_maxFailuresPerHour = None, cfg_maxConsecutiveFailures = Some 5,
              cfg_cooldownMinutes = None, cfg_strategyDisableThreshold = None\<rparr>)))))) = OPEN
   \<and> state (attemptRecovery 8 (disable (new_CircuitBreaker \<lparr>cfg_maxFailuresPerHour = None,
         cfg_maxConsecutiveFailures = None, cfg_cooldownMinutes = None,
         cfg_strategyDisableThreshold = None\<rparr>))) = HALF_OPEN
   \<and> state (recordSuccess 9 (attemptRecovery 8 (disable (new_CircuitBreaker
         \<lparr>cfg_maxFailuresPerHour = None, cfg_maxConsecutiveFailures = None,
          cfg_cooldownMinutes = None, cfg_strategyDisableThreshold = None\<rparr>)))) = CLOSED
   \<and> consecutiveFailures (recordSuccess 9 (attemptRecovery 8 (disable (new_CircuitBreaker
         \<lparr>cfg_maxFailuresPerHour = None, cfg_maxConsecutiveFailures = None,
          cfg_cooldownMinutes = None, cfg_strategyDisableThreshold = None\<rparr>)))) = 0
   \<and> state (disable (new_CircuitBreaker \<lparr>cfg_maxFailuresPerHour = None,
         cfg_maxConsecutiveFailures = None, cfg_cooldownMinutes = None,
         cfg_strategyDisableThreshold = None\<rparr>)) = OPEN
   \<and> state (recordFailure None 7 (disable (new_CircuitBreaker \<lparr>cfg_maxFailuresPerHour = None,
         cfg_maxConsecutiveFailures = None, cfg_cooldownMinutes = None,
         cfg_strategyDisableThreshold = None\<rparr>))) = OPEN
   \<and> recoveryTimers (recordFailure None 7 (disable (new_CircuitBreaker
         \<lparr>cfg_maxFailuresPerHour = None, cfg_maxConsecutiveFailures = None,
          cfg_cooldownMinutes = None, cfg_strategyDisableThreshold = None\<rparr>))) = []"
proof -
  let ?c5 = "\<lparr>cfg_maxFailuresPerHour = None, cfg_maxConsecutiveFailures = Some 5,
              cfg_cooldownMinutes = None, cfg_strategyDisableThreshold = None\<rparr>"
  let ?c0 = "\<lparr>cfg_maxFailuresPerHour = None, cfg_maxConsecutiveFailures = None,
              cfg_cooldownMinutes = None, cfg_strategyDisableThreshold = None\<rparr>"
  have closed: "state (new_CircuitBreaker ?c5) = CLOSED"
    and five: "maxConsecutiveFailures (new_CircuitBreaker ?c5) = 5"
    by (simp_all add: new_CircuitBreaker_def or_default_def)
  have half: "state (attemptRecovery 8 (disable (new_CircuitBreaker ?c0))) = HALF_OPEN"
    by (simp add: attemptRecovery_def disable_def new_CircuitBreaker_def)
  have opn: "state (disable (new_CircuitBreaker ?c0)) = OPEN"
    and timers: "recoveryTimers (disable (new_CircuitBreaker ?c0)) = []"
    by (simp_all add: disable_def new_CircuitBreaker_def)
  from circuit_breaker_state_machine
         [where cb = "new_CircuitBreaker ?c5" and ?s5.0 = None and ?t5.0 = 5 and ?s4.0 = None
            and ?t4.0 = 4 and ?s3.0 = "Some ''arbitrage''" and ?t3.0 = 3 and ?s2.0 = None
            and ?t2.0 = 2 and ?s1.0 = None and ?t1.0 = 1]
       circuit_breaker_state_machine
         [where cb = "attemptRecovery 8 (disable (new_CircuitBreaker ?c0))" and now = 9]
       circuit_breaker_state_machine
         [where cb = "disable (new_CircuitBreaker ?c0)" and s = None and now = 7]
       closed five half opn timers
  show ?thesis by simp
qed

section \<open>Risk manager: trade results and the daily loss budget\<close>

text \<open>
  C10. A trade result with \<open>success = false\<close> leaves the risk manager, and so its daily
  statistics, exactly as it was: the daily loss check gives the same answer before and
  after. A successful result adds a positive profit to \<open>totalProfit\<close> and the absolute
  value of any other profit to \<open>totalLoss\<close>.
\<close>

theorem failed_trade_leaves_dailyStats:
  "(\<not> success result \<longrightarrow>
      updateTradeResult result rm = Inr rm
      \<and> (\<forall>rm'. updateTradeResult result rm = Inr rm' \<longrightarrow>
             stats rm' = stats rm \<and> checkDailyLossLimit rm' = checkDailyLossLimit rm))
   \<and> (success result \<and> profit result = Some p \<and> 0 < p \<longrightarrow>
        updateTradeResult result rm =
          Inr (rm\<lparr>stats := (stats rm)\<lparr>totalProfit := totalProfit (stats rm) + p\<rparr>\<rparr>))
   \<and> (success result \<and> profit result = Some p \<and> p \<le> 0 \<longrightarrow>
        updateTradeResult result rm =
          Inr (rm\<lparr>stats := (stats rm)\<lparr>totalLoss := totalLoss (stats rm) + \<bar>p\<bar>\<rparr>\<rparr>))"
  by (auto simp add: updateTradeResult_def Let_def)

theorem failed_trade_leaves_dailyStats_witness:
  "\<not> success (failure ''Transaction reverted'')
   \<and> updateTradeResult (failure ''Transaction reverted'')
         (new_RiskManager shipped_risk_config ''2024-01-01'')
       = Inr (new_RiskManager shipped_risk_config ''2024-01-01'')
   \<and> success \<lparr>success = True, failReason = None, profit = Some (- 5)\<rparr>
   \<and> updateTradeResult \<lparr>success = True, failReason = None, profit = Some (- 5)\<rparr>
         (new_RiskManager shipped_risk_config ''2024-01-01'')
       = Inr ((new_RiskManager shipped_risk_config ''2024-01-01'')
               \<lparr>stats := (stats (new_RiskManager shipped_risk_config ''2024-01-01''))
                  \<lparr>totalLoss := totalLoss (stats (new_RiskManager shipped_risk_config
                                                     ''2024-01-01'')) + \<bar>- 5\<bar>\<rparr>\<rparr>)"
proof -
  have f: "\<not> success (failure ''Transaction reverted'')"
    by (simp add: failure_def)
  have g: "success \<lparr>success = True, failReason = None, profit = Some (- 5)\<rparr>
           \<and> profit \<lparr>success = True, failReason = None, profit = Some (- 5)\<rparr> = Some (- 5)
           \<and> (- 5 :: int) \<le> 0"
    by simp
  from f failed_trade_leaves_dailyStats
           [where result = "failure ''Transaction reverted''"
              and rm = "new_RiskManager shipped_risk_config ''2024-01-01''"]
  have 1: "updateTradeResult (failure ''Transaction reverted'')
             (new_RiskManager shipped_risk_config ''2024-01-01'')
           = Inr (new_RiskManager shipped_risk_config ''2024-01-01'')"
    by blast
  from g failed_trade_leaves_dailyStats
           [where result = "\<lparr>success = True, failReason = None, profit = Some (- 5)\<rparr>"
              and rm = "new_RiskManager shipped_risk_config ''2024-01-01''" and p = "- 5"]
  have 2: "updateTradeResult \<lparr>success = True, failReason = None, profit = Some (- 5)\<rparr>
             (new_RiskManager shipped_risk_config ''2024-01-01'')
           = Inr ((new_RiskManager shipped_risk_config ''2024-01-01'')
               \<lparr>stats := (stats (new_RiskManager shipped_risk_config ''2024-01-01''))
                  \<lparr>totalLoss := totalLoss (stats (new_RiskManager shipped_risk_config
                                                     ''2024-01-01'')) + \<bar>- 5\<bar>\<rparr>\<rparr>)"
    by blast
  from f g 1 2 show ?thesis by blast
qed

section \<open>Risk manager: the approval decision\<close>

lemma run_checks_length: "run_checks rm opp = Inr cs \<Longrightarrow> length cs = 8"
  by (auto simp add: run_checks_def split: sum.splits)

lemma run_checks_Inr:
  "run_checks rm opp = Inr cs \<Longrightarrow>
   \<exists>p l. checkProfitRatio rm opp = Inr p \<and> checkLiquidity rm opp = Inr l
         \<and> cs = [checkDailyLossLimit rm, checkPositionSize rm opp, checkGasPrice rm opp, p,
                 checkTokenRisk rm opp, checkDexRisk rm opp, checkSlippage rm opp, l]"
  by (cases "checkProfitRatio rm opp"; cases "checkLiquidity rm opp")
     (simp_all add: run_checks_def)

lemma config_checkDailyReset [simp]: "config (checkDailyReset now rm) = config rm"
  by (simp add: checkDailyReset_def Let_def)

lemma none_failed: "(filter (\<lambda>c. \<not> passed c) cs = []) = list_all passed cs"
  by (simp add: filter_empty_conv list_all_iff)

text \<open>
  The decision of \<open>assessOpportunity\<close>, for any risk manager: approved exactly when the
  eight checks all ran and passed and the score is below the ceiling that the configuration
  object holds.
\<close>

lemma assessOpportunity_approved_iff:
  "approved (fst (assessOpportunity sz now rm opp)) \<longleftrightarrow>
     (\<exists>cs m. run_checks (checkDailyReset now rm) opp = Inr cs
             \<and> list_all passed cs
             \<and> maxRiskScore (config rm) = Some m
             \<and> js_lt (calculateRiskScore cs) (Fin m))"
  by (cases "run_checks (checkDailyReset now rm) opp"; cases "maxRiskScore (config rm)")
     (simp_all add: assessOpportunity_def Let_def none_failed)



text \<open>
  The ceiling of a risk manager built from the loaded configuration: the value the
  deployment sets, and 7, the value of \<open>config/default.json\<close>, when it sets none.
\<close>

lemma load_risk_config_ceiling:
  "maxRiskScore (load_risk_config deployment)
   = Some (case maxRiskScore deployment of None \<Rightarrow> 7 | Some m \<Rightarrow> m)"
  by (simp add: load_risk_config_def shipped_risk_config_def obj_or_def split: option.splits)


text \<open>
  The default is the configuration file's, not the class's: \<open>RiskManager\<close> has a fallback
  in its code for every other limit and none for the ceiling, so a risk manager built from
  an object without \<open>maxRiskScore\<close> (which \<open>config.risk\<close> never is) approves nothing.
\<close>

lemma no_ceiling_in_object:
  "maxRiskScore (config rm) = None \<Longrightarrow> \<not> approved (fst (assessOpportunity sz now rm opp))"
  by (simp add: assessOpportunity_approved_iff)



section \<open>Admission control and expiry\<close>

lemma check_reasons:
  "reason (checkDailyLossLimit rm) \<noteq> Some ''expired''"
  "reason (checkPositionSize rm opp) \<noteq> Some ''expired''"
  "reason (checkGasPrice rm opp) \<noteq> Some ''expired''"
  "reason (checkTokenRisk rm opp) \<noteq> Some ''expired''"
  "reason (checkDexRisk rm opp) \<noteq> Some ''expired''"
  "reason (checkSlippage rm opp) \<noteq> Some ''expired''"
  by (simp_all add: checkDailyLossLimit_def checkPositionSize_def checkGasPrice_def
        checkTokenRisk_def checkDexRisk_def checkSlippage_def Let_def split: prod.splits)

lemma checkProfitRatio_reason:
  "checkProfitRatio rm opp = Inr c \<Longrightarrow> reason c \<noteq> Some ''expired''"
  by (auto simp add: checkProfitRatio_def Let_def split: option.splits sum.splits if_splits)

lemma checkLiquidity_reason:
  "checkLiquidity rm opp = Inr c \<Longrightarrow> reason c \<noteq> Some ''expired''"
  by (auto simp add: checkLiquidity_def Let_def split: option.splits sum.splits if_splits)

lemma run_checks_reason:
  assumes "run_checks rm opp = Inr cs" and "c \<in> set cs"
  shows "reason c \<noteq> Some ''expired''"
proof -
  from assms(1) obtain p l where
    p: "checkProfitRatio rm opp = Inr p" and l: "checkLiquidity rm opp = Inr l" and
    cs: "cs = [checkDailyLossLimit rm, checkPositionSize rm opp, checkGasPrice rm opp, p,
               checkTokenRisk rm opp, checkDexRisk rm opp, checkSlippage rm opp, l]"
    using run_checks_Inr by blast
  from assms(2) cs consider
      "c = checkDailyLossLimit rm" | "c = checkPositionSize rm opp" | "c = checkGasPrice rm opp"
    | "c = p" | "c = checkTokenRisk rm opp" | "c = checkDexRisk rm opp"
    | "c = checkSlippage rm opp" | "c = l"
    by auto
  then show ?thesis
    using check_reasons checkProfitRatio_reason [OF p] checkLiquidity_reason [OF l]
    by cases simp_all
qed

lemma checks_expiresAt:
  "checkPositionSize rm (opp\<lparr>expiresAt := e\<rparr>) = checkPositionSize rm opp"
  "checkGasPrice rm (opp\<lparr>expiresAt := e\<rparr>) = checkGasPrice rm opp"
  "checkTokenRisk rm (opp\<lparr>expiresAt := e\<rparr>) = checkTokenRisk rm opp"
  "checkDexRisk rm (opp\<lparr>expiresAt := e\<rparr>) = checkDexRisk rm opp"
  "checkSlippage rm (opp\<lparr>expiresAt := e\<rparr>) = checkSlippage rm opp"
  by (simp_all add: checkPositionSize_def checkGasPrice_def checkTokenRisk_def
        checkDexRisk_def checkSlippage_def extractTokens_def extractDexes_def
        estimateSlippage_def cong: option.case_cong)

lemma checkProfitRatio_expiresAt:
  "checkProfitRatio rm (opp\<lparr>expiresAt := e\<rparr>) = checkProfitRatio rm opp"
  by (simp add: checkProfitRatio_def cong: option.case_cong prod.case_cong)

lemma checkLiquidity_expiresAt:
  "checkLiquidity rm (opp\<lparr>expiresAt := e\<rparr>) = checkLiquidity rm opp"
  by (simp add: checkLiquidity_def estimateLiquidity_def cong: option.case_cong)

lemma run_checks_expiresAt: "run_checks rm (opp\<lparr>expiresAt := e\<rparr>) = run_checks rm opp"
  by (simp add: run_checks_def checks_expiresAt checkProfitRatio_expiresAt
        checkLiquidity_expiresAt cong: sum.case_cong)

text \<open>
  At one reading of the clock, the assessment of an opportunity does not depend on its
  \<open>expiresAt\<close>, and neither does the state the risk manager is left in.
\<close>

lemma assessOpportunity_expiresAt:
  "approved (fst (assessOpportunity sz now rm (opp\<lparr>expiresAt := e\<rparr>)))
     = approved (fst (assessOpportunity sz now rm opp))"
  "rejectReason (fst (assessOpportunity sz now rm (opp\<lparr>expiresAt := e\<rparr>)))
     = rejectReason (fst (assessOpportunity sz now rm opp))"
  "score (fst (assessOpportunity sz now rm (opp\<lparr>expiresAt := e\<rparr>)))
     = score (fst (assessOpportunity sz now rm opp))"
  "checks (fst (assessOpportunity sz now rm (opp\<lparr>expiresAt := e\<rparr>)))
     = checks (fst (assessOpportunity sz now rm opp))"
  "assessedAt (fst (assessOpportunity sz now rm (opp\<lparr>expiresAt := e\<rparr>)))
     = assessedAt (fst (assessOpportunity sz now rm opp))"
  "snd (assessOpportunity sz now rm (opp\<lparr>expiresAt := e\<rparr>))
     = snd (assessOpportunity sz now rm opp)"
  by (simp_all add: assessOpportunity_def run_checks_expiresAt Let_def split: sum.splits)

text \<open>
  The clock enters the decision through the date alone: \<open>checkDailyReset\<close> starts new daily
  statistics when the date has changed, and the daily loss check reads them.
\<close>

lemma checkDailyReset_date:
  "getCurrentDate now' = getCurrentDate now \<Longrightarrow> checkDailyReset now' rm = checkDailyReset now rm"
  by (simp add: checkDailyReset_def)

lemma assessOpportunity_same_date:
  assumes "getCurrentDate now' = getCurrentDate now"
  shows "approved (fst (assessOpportunity sz now' rm opp))
           = approved (fst (assessOpportunity sz now rm opp))"
    and "rejectReason (fst (assessOpportunity sz now' rm opp))
           = rejectReason (fst (assessOpportunity sz now rm opp))"
    and "score (fst (assessOpportunity sz now' rm opp))
           = score (fst (assessOpportunity sz now rm opp))"
    and "checks (fst (assessOpportunity sz now' rm opp))
           = checks (fst (assessOpportunity sz now rm opp))"
    and "snd (assessOpportunity sz now' rm opp) = snd (assessOpportunity sz now rm opp)"
  by (simp_all add: assessOpportunity_def checkDailyReset_date [OF assms] Let_def
        split: sum.splits)

text \<open>
  Across a change of date the decision can change. A risk manager that has booked a loss
  of 1 ETH on 2024-01-01, which is the whole daily budget, rejects the sample opportunity
  on that day and approves it at the same time of the next day.
\<close>

lemma decision_changes_with_the_date:
  "getCurrentDate 1704067205000 = ''2024-01-01''
   \<and> getCurrentDate 1704153605000 = ''2024-01-02''
   \<and> rejectReason (fst (assessOpportunity sample_sizer 1704067205000
         ((new_RiskManager shipped_risk_config ''2024-01-01'')
            \<lparr>stats := (fresh_stats ''2024-01-01'')\<lparr>totalLoss := 10 ^ 18\<rparr>\<rparr>)
         sample_opportunity)) = Some ''Daily loss limit reached''
   \<and> approved (fst (assessOpportunity sample_sizer 1704153605000
         ((new_RiskManager shipped_risk_config ''2024-01-01'')
            \<lparr>stats := (fresh_stats ''2024-01-01'')\<lparr>totalLoss := 10 ^ 18\<rparr>\<rparr>)
         sample_opportunity))"
  by code_simp

lemma assessOpportunity_reason:
  "rejectReason (fst (assessOpportunity sz now rm opp)) \<noteq> Some ''expired''"
proof (cases "run_checks (checkDailyReset now rm) opp")
  case (Inl e)
  then show ?thesis by (simp add: assessOpportunity_def Let_def)
next
  case (Inr cs)
  show ?thesis
  proof (cases "filter (\<lambda>c. \<not> passed c) cs")
    case Nil
    with Inr show ?thesis by (simp add: assessOpportunity_def Let_def)
  next
    case (Cons c rest)
    then have "c \<in> set (filter (\<lambda>c. \<not> passed c) cs)" by simp
    then have "c \<in> set cs" by simp
    with Inr have "reason c \<noteq> Some ''expired''" by (rule run_checks_reason)
    with Inr Cons show ?thesis by (simp add: assessOpportunity_def Let_def)
  qed
qed

lemma dispatch_expiresAt:
  "executeStandard env t w (opp\<lparr>expiresAt := e\<rparr>) ex = executeStandard env t w opp ex"
  "executeBundle env (opp\<lparr>expiresAt := e\<rparr>) w ex = executeBundle env opp w ex"
  "executeSandwich env (opp\<lparr>expiresAt := e\<rparr>) w ex = executeSandwich env opp w ex"
  "executeFlashLoan env (opp\<lparr>expiresAt := e\<rparr>) w ex = executeFlashLoan env opp w ex"
  "buildTransaction env (opp\<lparr>expiresAt := e\<rparr>) w ex = buildTransaction env opp w ex"
  "selectWallet env ex (opp\<lparr>expiresAt := e\<rparr>) ra = selectWallet env ex opp ra"
  by (simp_all add: executeStandard_def executeBundle_def executeSandwich_def
        executeFlashLoan_def buildTransaction_def selectWallet_def buildBundle_def
        calculateActualProfit_def calculateFlashLoanProfit_def
      cong: option.case_cong if_cong)

lemma execute_expiresAt: "execute env (opp\<lparr>expiresAt := e\<rparr>) ra ex = execute env opp ra ex"
  by (simp add: execute_def dispatch_expiresAt
      cong: option.case_cong if_cong simulation.case_cong prod.case_cong)

lemma execute_score: "score ra = score ra' \<Longrightarrow> execute env opp ra ex = execute env opp ra' ex"
  by (simp add: execute_def selectWallet_def)

lemma execute_after_assessment:
  "execute env (opp\<lparr>expiresAt := e\<rparr>)
     (fst (assessOpportunity sz now rm (opp\<lparr>expiresAt := e\<rparr>))) ex
   = execute env opp (fst (assessOpportunity sz now rm opp)) ex"
  using execute_score [OF assessOpportunity_expiresAt(3)]
  by (simp add: execute_expiresAt)

lemma handleOpportunity_expiresAt:
  "handleOpportunity benv (opp\<lparr>expiresAt := e\<rparr>) strategyName b
   = handleOpportunity benv opp strategyName b"
  unfolding handleOpportunity_def Let_def case_prod_beta
  by (simp add: assessOpportunity_expiresAt execute_after_assessment
      cong: if_cong option.case_cong sum.case_cong)

text \<open>
  C1, as the claim states it, fails. The sample opportunity expired at 1704067204000 and
  the admission check runs one second later. The opportunity is approved, with no
  rejection reason, and is processed further: the executor builds its transaction, which
  takes nonce 7 of the main wallet and leaves 8 as the next one, the simulation runs and
  fails (as it does in this repository for any transaction), and the trade is written to
  the database as failed and counted by the circuit breaker.
\<close>

theorem expired_opportunity_is_approved_and_processed:
  "expiresAt sample_opportunity = Some 1704067204000
   \<and> clock sample_bot_env = 1704067205000
   \<and> approved (fst (assessOpportunity (sizer sample_bot_env) (clock sample_bot_env)
         (new_RiskManager shipped_risk_config ''2024-01-01'') sample_opportunity)) = True
   \<and> rejectReason (fst (assessOpportunity (sizer sample_bot_env) (clock sample_bot_env)
         (new_RiskManager shipped_risk_config ''2024-01-01'') sample_opportunity)) = None
   \<and> nonces (executor (handleOpportunity sample_bot_env sample_opportunity ''arbitrage''
         (new_MEVBot shipped_risk_config ''2024-01-01''))) ''0xMAIN'' = Some 8
   \<and> db (handleOpportunity sample_bot_env sample_opportunity ''arbitrage''
         (new_MEVBot shipped_risk_config ''2024-01-01''))
       = [FailedTrade (Some ''Simulation failed'')]
   \<and> failures (circuitBreaker (handleOpportunity sample_bot_env sample_opportunity
         ''arbitrage'' (new_MEVBot shipped_risk_config ''2024-01-01''))) = 1"
  by code_simp

text \<open>
  C1, amended. Admission control has no expiry check. The reason of a rejection is never
  \<open>expired\<close>. At every reading of the clock, the decision (approved, reason, score, checks),
  the state the risk manager is left in and everything \<open>handleOpportunity\<close> does are the
  same for every value of \<open>expiresAt\<close>, passed or not. The clock itself matters to the
  decision through its date alone: two readings on the same UTC date give the same
  decision.
\<close>

theorem admission_has_no_expiry_check:
  "rejectReason (fst (assessOpportunity sz now rm opp)) \<noteq> Some ''expired''
   \<and> approved (fst (assessOpportunity sz now rm (opp\<lparr>expiresAt := e\<rparr>)))
       = approved (fst (assessOpportunity sz now rm opp))
   \<and> rejectReason (fst (assessOpportunity sz now rm (opp\<lparr>expiresAt := e\<rparr>)))
       = rejectReason (fst (assessOpportunity sz now rm opp))
   \<and> score (fst (assessOpportunity sz now rm (opp\<lparr>expiresAt := e\<rparr>)))
       = score (fst (assessOpportunity sz now rm opp))
   \<and> checks (fst (assessOpportunity sz now rm (opp\<lparr>expiresAt := e\<rparr>)))
       = checks (fst (assessOpportunity sz now rm opp))
   \<and> snd (assessOpportunity sz now rm (opp\<lparr>expiresAt := e\<rparr>))
       = snd (assessOpportunity sz now rm opp)
   \<and> handleOpportunity benv (opp\<lparr>expiresAt := e\<rparr>) strategyName b
       = handleOpportunity benv opp strategyName b
   \<and> (getCurrentDate now' = getCurrentDate now \<longrightarrow>
        approved (fst (assessOpportunity sz now' rm opp))
          = approved (fst (assessOpportunity sz now rm opp))
        \<and> rejectReason (fst (assessOpportunity sz now' rm opp))
            = rejectReason (fst (assessOpportunity sz now rm opp))
        \<and> score (fst (assessOpportunity sz now' rm opp))
            = score (fst (assessOpportunity sz now rm opp))
        \<and> checks (fst (assessOpportunity sz now' rm opp))
            = checks (fst (assessOpportunity sz now rm opp)))"
  using assessOpportunity_reason [of sz now rm opp]
        assessOpportunity_expiresAt [where sz = sz and now = now and rm = rm
          and opp = opp and e = e]
        assessOpportunity_same_date [where sz = sz and now = now and now' = now'
          and rm = rm and opp = opp]
        handleOpportunity_expiresAt [where benv = benv and opp = opp and e = e
          and strategyName = strategyName and b = b]
  by simp

text \<open>
  At the sample opportunity, assessed five seconds and again ninety-nine seconds after
  midnight of 2024-01-01, with its expiry moved from one second before the first
  assessment to four seconds after it.
\<close>

theorem admission_has_no_expiry_check_witness:
  "getCurrentDate 1704067299000 = getCurrentDate 1704067205000
   \<and> rejectReason (fst (assessOpportunity sample_sizer 1704067205000
         (new_RiskManager shipped_risk_config ''2024-01-01'') sample_opportunity))
       \<noteq> Some ''expired''
   \<and> approved (fst (assessOpportunity sample_sizer 1704067205000
         (new_RiskManager shipped_risk_config ''2024-01-01'')
         (sample_opportunity\<lparr>expiresAt := Some 1704067209000\<rparr>)))
       = approved (fst (assessOpportunity sample_sizer 1704067205000
           (new_RiskManager shipped_risk_config ''2024-01-01'') sample_opportunity))
   \<and> handleOpportunity sample_bot_env (sample_opportunity\<lparr>expiresAt := Some 1704067209000\<rparr>)
         ''arbitrage'' (new_MEVBot shipped_risk_config ''2024-01-01'')
       = handleOpportunity sample_bot_env sample_opportunity ''arbitrage''
           (new_MEVBot shipped_risk_config ''2024-01-01'')
   \<and> approved (fst (assessOpportunity sample_sizer 1704067299000
         (new_RiskManager shipped_risk_config ''2024-01-01'') sample_opportunity))
       = approved (fst (assessOpportunity sample_sizer 1704067205000
           (new_RiskManager shipped_risk_config ''2024-01-01'') sample_opportunity))
   \<and> score (fst (assessOpportunity sample_sizer 1704067299000
         (new_RiskManager shipped_risk_config ''2024-01-01'') sample_opportunity))
       = score (fst (assessOpportunity sample_sizer 1704067205000
           (new_RiskManager shipped_risk_config ''2024-01-01'') sample_opportunity))"
proof -
  have same: "getCurrentDate 1704067299000 = getCurrentDate 1704067205000"
    by code_simp
  from same admission_has_no_expiry_check
          [where sz = sample_sizer and now = 1704067205000 and now' = 1704067299000
             and rm = "new_RiskManager shipped_risk_config ''2024-01-01''"
             and opp = sample_opportunity and e = "Some 1704067209000"
             and benv = sample_bot_env and strategyName = "''arbitrage''"
             and b = "new_MEVBot shipped_risk_config ''2024-01-01''"]
  show ?thesis by blast
qed

section \<open>Reporting outcomes to the circuit breaker\<close>

text \<open>
  Whatever happens in \<open>handleOpportunity\<close>, the breaker afterwards is the breaker before,
  or that breaker after one or two calls of \<open>recordFailure\<close>: \<open>recordSuccess\<close> is never
  called.
\<close>

lemma handleOpportunity_breaker:
  "circuitBreaker (handleOpportunity benv opp strategyName b) = circuitBreaker b
   \<or> circuitBreaker (handleOpportunity benv opp strategyName b)
       = recordFailure None (clock benv) (circuitBreaker b)
   \<or> circuitBreaker (handleOpportunity benv opp strategyName b)
       = recordFailure None (clock benv) (recordFailure None (clock benv) (circuitBreaker b))"
  unfolding handleOpportunity_def Let_def case_prod_beta on_error_def recordTrade_def
  by (simp split: option.splits)

text \<open>
  The branch for a successful execution. Nothing in it reports to the breaker. With a
  positive profit \<open>metrics.recordTrade\<close> throws after the trade has been written to the
  database, and the \<open>catch\<close> block records a failure; with a profit of zero or less the
  breaker is left as it was.
\<close>

lemma handleOpportunity_success_breaker:
  assumes "\<not> isTripped (circuitBreaker b)"
    and "approved (fst (assessOpportunity (sizer benv) (clock benv) (riskManager b) opp))"
    and "expectedProfit opp = Some ep"
    and "execute (exec benv) opp
           (fst (assessOpportunity (sizer benv) (clock benv) (riskManager b) opp))
           (executor b) = (result, ex)"
    and "success result" and "profit result = Some p" and "\<not> dbThrows benv"
  shows "circuitBreaker (handleOpportunity benv opp strategyName b)
         = (if 0 < p then recordFailure None (clock benv) (circuitBreaker b)
            else circuitBreaker b)"
    and "db (handleOpportunity benv opp strategyName b) = db b @ [SuccessfulTrade]"
  using assms unfolding handleOpportunity_def Let_def case_prod_beta on_error_def recordTrade_def
  by simp_all

text \<open>
  The branch for a failed execution: one call of \<open>recordFailure\<close> when the database takes
  the row, two when it rejects it.
\<close>

lemma handleOpportunity_failure_breaker:
  assumes "\<not> isTripped (circuitBreaker b)"
    and "approved (fst (assessOpportunity (sizer benv) (clock benv) (riskManager b) opp))"
    and "expectedProfit opp = Some ep"
    and "execute (exec benv) opp
           (fst (assessOpportunity (sizer benv) (clock benv) (riskManager b) opp))
           (executor b) = (result, ex)"
    and "\<not> success result"
  shows "circuitBreaker (handleOpportunity benv opp strategyName b)
         = (if dbThrows benv
            then recordFailure None (clock benv)
                   (recordFailure None (clock benv) (circuitBreaker b))
            else recordFailure None (clock benv) (circuitBreaker b))"
  using assms unfolding handleOpportunity_def Let_def case_prod_beta on_error_def recordTrade_def
  by simp

text \<open>
  C4, at a failed execution whose row the database rejects. The sample opportunity is
  admitted; \<open>execute\<close> returns the failure \<open>'Simulation failed'\<close>, which is what it returns
  in this repository; \<open>handleOpportunity\<close> counts one failed trade and calls
  \<open>recordFailure\<close>; \<open>db.recordFailedTrade\<close> rejects, and the \<open>catch\<close> block calls
  \<open>recordFailure\<close> again. The breaker has counted two failures for the one outcome. When the
  database takes the row it has counted one.
\<close>

theorem failed_outcome_recorded_twice_when_database_rejects:
  "fst (execute (exec sample_bot_env) sample_opportunity sample_assessment new_Executor)
     = failure ''Simulation failed''
   \<and> dbThrows (sample_bot_env\<lparr>dbThrows := True\<rparr>)
   \<and> failedTrades (handleOpportunity (sample_bot_env\<lparr>dbThrows := True\<rparr>) sample_opportunity
         ''arbitrage'' (new_MEVBot shipped_risk_config ''2024-01-01'')) = 1
   \<and> failures (circuitBreaker (handleOpportunity (sample_bot_env\<lparr>dbThrows := True\<rparr>)
         sample_opportunity ''arbitrage'' (new_MEVBot shipped_risk_config ''2024-01-01''))) = 2
   \<and> consecutiveFailures (circuitBreaker (handleOpportunity (sample_bot_env\<lparr>dbThrows := True\<rparr>)
         sample_opportunity ''arbitrage'' (new_MEVBot shipped_risk_config ''2024-01-01''))) = 2
   \<and> hourlyFailures (circuitBreaker (handleOpportunity (sample_bot_env\<lparr>dbThrows := True\<rparr>)
         sample_opportunity ''arbitrage'' (new_MEVBot shipped_risk_config ''2024-01-01'')))
       = [(1704067205000, None), (1704067205000, None)]
   \<and> failures (recordFailure None 1704067205000 (new_CircuitBreaker no_breaker_config)) = 1
   \<and> failures (circuitBreaker (handleOpportunity sample_bot_env sample_opportunity
         ''arbitrage'' (new_MEVBot shipped_risk_config ''2024-01-01''))) = 1"
  by code_simp

section \<open>Nonce reservation\<close>

text \<open>
  One call of \<open>getNonce\<close> after another, for one address: the nonces returned are
  consecutive from the first one, which is the chain's pending count when the executor has
  no entry for the address.
\<close>

lemma getNonces_from:
  assumes "0 \<le> s"
    and "case nonces ex addr of None \<Rightarrow> getTransactionCount env addr = s
         | Some m \<Rightarrow> m = s \<and> m \<noteq> 0"
  shows "fst (getNonces n env addr ex) = map (\<lambda>i. s + int i) [0 ..< n]"
  using assms
proof (induction n arbitrary: ex s)
  case 0
  then show ?case by simp
next
  case (Suc n)
  have first: "fst (getNonce env addr ex) = s"
    using Suc.prems(2) by (simp add: getNonce_def split: option.splits)
  have next_entry: "nonces (snd (getNonce env addr ex)) addr = Some (s + 1)"
    using Suc.prems(2) by (simp add: getNonce_def split: option.splits)
  have "fst (getNonces n env addr (snd (getNonce env addr ex)))
          = map (\<lambda>i. (s + 1) + int i) [0 ..< n]"
    using Suc.prems(1) next_entry by (intro Suc.IH) simp_all
  then have rest: "fst (getNonces n env addr (snd (getNonce env addr ex)))
          = map (\<lambda>i. s + int (Suc i)) [0 ..< n]"
    by (simp add: add.assoc add.commute)
  have "map (\<lambda>i. s + int i) [0 ..< Suc n] = s # map (\<lambda>i. s + int (Suc i)) [0 ..< n]"
    by (simp only: upt_conv_Cons [of 0 "Suc n"] map_Suc_upt [symmetric]) simp
  with first rest show ?case
    by (simp add: case_prod_beta Let_def)
qed

lemma getNonces_contiguous:
  "0 \<le> getTransactionCount env addr \<Longrightarrow> nonces ex addr = None \<Longrightarrow>
   fst (getNonces n env addr ex) = map (\<lambda>i. getTransactionCount env addr + int i) [0 ..< n]
   \<and> distinct (fst (getNonces n env addr ex))"
proof -
  assume a: "0 \<le> getTransactionCount env addr" and b: "nonces ex addr = None"
  have eq: "fst (getNonces n env addr ex)
              = map (\<lambda>i. getTransactionCount env addr + int i) [0 ..< n]"
    using a b by (intro getNonces_from) simp_all
  have "inj_on (\<lambda>i. getTransactionCount env addr + int i) (set [0 ..< n])"
    by (simp add: inj_on_def)
  then have "distinct (map (\<lambda>i. getTransactionCount env addr + int i) [0 ..< n])"
    by (simp add: distinct_map)
  with eq show ?thesis by simp
qed


section \<open>The simulation gate of the executor\<close>

lemma buildTransaction_trace: "trace (snd (buildTransaction env opp w ex)) = trace ex"
  by (simp add: buildTransaction_def getNonce_def Let_def)

text \<open>The three ways in which \<open>execute\<close> stops before dispatch, and what it returns.\<close>

lemma execute_simulation_failed:
  assumes "selectWallet env ex opp ra = Some w"
    and "simulate env = SimulationThrew \<or> simulate env = Simulated False p"
  shows "fst (execute env opp ra ex) = failure ''Simulation failed''"
    and "trace (snd (execute env opp ra ex)) = trace ex"
  using assms buildTransaction_trace [of env opp w ex]
  by (auto simp add: execute_def Let_def case_prod_beta)

lemma execute_below_minimum:
  assumes "selectWallet env ex opp ra = Some w"
    and "simulate env = Simulated True p"
    and "minProfitETH env (strategy opp) = Some configured"
    and "p < parseEther (case configured of None \<Rightarrow> 1 / 1000 | Some r \<Rightarrow> r)"
  shows "fst (execute env opp ra ex) = failure ''Profit below minimum threshold''"
    and "trace (snd (execute env opp ra ex)) = trace ex"
  using assms buildTransaction_trace [of env opp w ex]
  by (auto simp add: execute_def Let_def case_prod_beta)

lemma execute_dispatch_needs_gate:
  assumes "trace (snd (execute env opp ra ex)) \<noteq> trace ex"
  shows "\<exists>p configured. simulate env = Simulated True p
           \<and> minProfitETH env (strategy opp) = Some configured
           \<and> parseEther (case configured of None \<Rightarrow> 1 / 1000 | Some r \<Rightarrow> r) \<le> p"
proof (cases "selectWallet env ex opp ra")
  case None
  with assms show ?thesis by (simp add: execute_def)
next
  case (Some w)
  note bt = buildTransaction_trace [of env opp w ex]
  show ?thesis
  proof (cases "simulate env")
    case SimulationThrew
    with Some assms bt show ?thesis
      by (simp add: execute_def Let_def case_prod_beta)
  next
    case (Simulated ok p)
    show ?thesis
    proof (cases ok)
      case False
      with Some Simulated assms bt show ?thesis
        by (simp add: execute_def Let_def case_prod_beta)
    next
      case True
      show ?thesis
      proof (cases "minProfitETH env (strategy opp)")
        case None
        with Some Simulated True assms bt show ?thesis
          by (simp add: execute_def Let_def case_prod_beta)
      next
        case (Some configured)
        show ?thesis
        proof (cases "p < parseEther (case configured of None \<Rightarrow> 1 / 1000 | Some r \<Rightarrow> r)")
          case True
          with \<open>selectWallet env ex opp ra = Some w\<close> Simulated \<open>ok\<close> Some assms bt
          show ?thesis
            by (simp add: execute_def Let_def case_prod_beta)
        next
          case False
          with Simulated \<open>ok\<close> Some show ?thesis by simp
        qed
      qed
    qed
  qed
qed

lemma snd_catch:
  "snd (case s of Inl e \<Rightarrow> (a, z) | Inr r \<Rightarrow> (r, z)) = z"
  by (cases s) simp_all

lemma dispatch_trace_estimate:
  "trace (snd (executeStandard env t w (opp\<lparr>expectedProfit := ep, netProfit := np\<rparr>) ex))
     = trace (snd (executeStandard env t w opp ex))"
  "trace (snd (executeFlashLoan env (opp\<lparr>expectedProfit := ep, netProfit := np\<rparr>) w ex))
     = trace (snd (executeFlashLoan env opp w ex))"
  "executeBundle env (opp\<lparr>expectedProfit := ep, netProfit := np\<rparr>) w ex
     = executeBundle env opp w ex"
  "executeSandwich env (opp\<lparr>expectedProfit := ep, netProfit := np\<rparr>) w ex
     = executeSandwich env opp w ex"
  "buildTransaction env (opp\<lparr>expectedProfit := ep, netProfit := np\<rparr>) w ex
     = buildTransaction env opp w ex"
  "selectWallet env ex (opp\<lparr>expectedProfit := ep, netProfit := np\<rparr>) ra
     = selectWallet env ex opp ra"
  by (simp_all add: executeStandard_def executeFlashLoan_def executeBundle_def
        executeSandwich_def buildTransaction_def selectWallet_def buildBundle_def Let_def
      split: option.splits sum.splits)

lemma execute_trace:
  "trace (snd (execute env opp ra ex)) =
     (case selectWallet env ex opp ra of
        None \<Rightarrow> trace ex
      | Some w \<Rightarrow>
          (case simulate env of
             SimulationThrew \<Rightarrow> trace ex
           | Simulated ok p \<Rightarrow>
               if \<not> ok then trace ex
               else
                 (case minProfitETH env (strategy opp) of
                    None \<Rightarrow> trace ex
                  | Some configured \<Rightarrow>
                      if p < parseEther (case configured of None \<Rightarrow> 1 / 1000 | Some r \<Rightarrow> r)
                      then trace ex
                      else trace (snd
                        (if kind opp = ''sandwich''
                           then executeSandwich env opp w (snd (buildTransaction env opp w ex))
                         else if kind opp = ''flashloan''
                           then executeFlashLoan env opp w (snd (buildTransaction env opp w ex))
                         else if requiresBundle opp
                           then executeBundle env opp w (snd (buildTransaction env opp w ex))
                         else executeStandard env (fst (buildTransaction env opp w ex)) w opp
                                (snd (buildTransaction env opp w ex)))))))"
  by (simp add: execute_def Let_def case_prod_beta snd_catch buildTransaction_trace
      split: option.splits simulation.splits)

lemma execute_trace_estimate:
  "trace (snd (execute env (opp\<lparr>expectedProfit := ep, netProfit := np\<rparr>) ra ex))
     = trace (snd (execute env opp ra ex))"
  by (simp add: execute_trace dispatch_trace_estimate
      split: option.splits simulation.splits)

text \<open>
  C8. \<open>execute\<close> signs or submits something only if the simulation succeeded and its
  profit is at least the configured minimum of the opportunity's strategy (0.001 ETH when
  the strategy's configuration has no \<open>minProfitETH\<close>). When the simulation throws or
  reports failure the result is \<open>'Simulation failed'\<close>, when its profit is below the
  minimum the result is \<open>'Profit below minimum threshold'\<close>, and in both cases nothing is
  signed or submitted. What is signed and submitted does not depend on the opportunity's
  own profit estimate.
\<close>

theorem execute_simulation_gate:
  "(trace (snd (execute env opp ra ex)) \<noteq> trace ex \<longrightarrow>
      (\<exists>p configured. simulate env = Simulated True p
          \<and> minProfitETH env (strategy opp) = Some configured
          \<and> parseEther (case configured of None \<Rightarrow> 1 / 1000 | Some r \<Rightarrow> r) \<le> p))
   \<and> (selectWallet env ex opp ra = Some w
        \<and> (simulate env = SimulationThrew \<or> simulate env = Simulated False p) \<longrightarrow>
        fst (execute env opp ra ex) = failure ''Simulation failed''
        \<and> trace (snd (execute env opp ra ex)) = trace ex)
   \<and> (selectWallet env ex opp ra = Some w
        \<and> simulate env = Simulated True p
        \<and> minProfitETH env (strategy opp) = Some configured
        \<and> p < parseEther (case configured of None \<Rightarrow> 1 / 1000 | Some r \<Rightarrow> r) \<longrightarrow>
        fst (execute env opp ra ex) = failure ''Profit below minimum threshold''
        \<and> trace (snd (execute env opp ra ex)) = trace ex)
   \<and> trace (snd (execute env (opp\<lparr>expectedProfit := ep, netProfit := np\<rparr>) ra ex))
       = trace (snd (execute env opp ra ex))"
proof (intro conjI impI)
  assume "trace (snd (execute env opp ra ex)) \<noteq> trace ex"
  then show "\<exists>p configured. simulate env = Simulated True p
          \<and> minProfitETH env (strategy opp) = Some configured
          \<and> parseEther (case configured of None \<Rightarrow> 1 / 1000 | Some r \<Rightarrow> r) \<le> p"
    by (rule execute_dispatch_needs_gate)
next
  assume a: "selectWallet env ex opp ra = Some w
     \<and> (simulate env = SimulationThrew \<or> simulate env = Simulated False p)"
  then show "fst (execute env opp ra ex) = failure ''Simulation failed''"
    using execute_simulation_failed(1) by blast
  from a show "trace (snd (execute env opp ra ex)) = trace ex"
    using execute_simulation_failed(2) by blast
next
  assume a: "selectWallet env ex opp ra = Some w
        \<and> simulate env = Simulated True p
        \<and> minProfitETH env (strategy opp) = Some configured
        \<and> p < parseEther (case configured of None \<Rightarrow> 1 / 1000 | Some r \<Rightarrow> r)"
  then show "fst (execute env opp ra ex) = failure ''Profit below minimum threshold''"
    using execute_below_minimum(1) by blast
  from a show "trace (snd (execute env opp ra ex)) = trace ex"
    using execute_below_minimum(2) by blast
next
  show "trace (snd (execute env (opp\<lparr>expectedProfit := ep, netProfit := np\<rparr>) ra ex))
       = trace (snd (execute env opp ra ex))"
    by (rule execute_trace_estimate)
qed

theorem execute_simulation_gate_witness:
  "trace (snd (execute sample_exec_env sample_opportunity sample_assessment new_Executor))
     \<noteq> trace new_Executor
   \<and> (\<exists>p configured. simulate sample_exec_env = Simulated True p
         \<and> minProfitETH sample_exec_env (strategy sample_opportunity) = Some configured
         \<and> parseEther (case configured of None \<Rightarrow> 1 / 1000 | Some r \<Rightarrow> r) \<le> p)
   \<and> fst (execute (sample_exec_env\<lparr>simulateTransaction := Inl TypeError\<rparr>)
              sample_opportunity sample_assessment new_Executor)
       = failure ''Simulation failed''
   \<and> trace (snd (execute (sample_exec_env\<lparr>simulateTransaction := Inl TypeError\<rparr>)
              sample_opportunity sample_assessment new_Executor)) = trace new_Executor
   \<and> fst (execute (sample_exec_env\<lparr>simulateTransaction :=
                                       Inr \<lparr>sim_success = True, sim_profit = None\<rparr>\<rparr>)
              sample_opportunity sample_assessment new_Executor)
       = failure ''Profit below minimum threshold''
   \<and> trace (snd (execute (sample_exec_env\<lparr>simulateTransaction :=
                                       Inr \<lparr>sim_success = True, sim_profit = None\<rparr>\<rparr>)
              sample_opportunity sample_assessment new_Executor)) = trace new_Executor"
proof -
  let ?threw = "sample_exec_env\<lparr>simulateTransaction := Inl TypeError\<rparr>"
  let ?low = "sample_exec_env\<lparr>simulateTransaction :=
                               Inr \<lparr>sim_success = True, sim_profit = None\<rparr>\<rparr>"
  have dispatched:
    "trace (snd (execute sample_exec_env sample_opportunity sample_assessment new_Executor))
       \<noteq> trace new_Executor"
    by code_simp
  have threw: "selectWallet ?threw new_Executor sample_opportunity sample_assessment
                 = Some main_wallet
               \<and> (simulate ?threw = SimulationThrew \<or> simulate ?threw = Simulated False 0)"
    by code_simp
  have low: "selectWallet ?low new_Executor sample_opportunity sample_assessment
               = Some main_wallet
             \<and> simulate ?low = Simulated True 0
             \<and> minProfitETH ?low (strategy sample_opportunity) = Some (Some (1 / 1000))
             \<and> 0 < parseEther (case Some (1 / 1000) of None \<Rightarrow> 1 / 1000 | Some r \<Rightarrow> r)"
    by code_simp
  from dispatched
       execute_simulation_gate
         [where env = sample_exec_env and opp = sample_opportunity and ra = sample_assessment
            and ex = new_Executor]
  have 1: "\<exists>p configured. simulate sample_exec_env = Simulated True p
         \<and> minProfitETH sample_exec_env (strategy sample_opportunity) = Some configured
         \<and> parseEther (case configured of None \<Rightarrow> 1 / 1000 | Some r \<Rightarrow> r) \<le> p"
    by blast
  from threw
       execute_simulation_gate
         [where env = ?threw and opp = sample_opportunity and ra = sample_assessment
            and ex = new_Executor and w = main_wallet and p = 0]
  have 2: "fst (execute ?threw sample_opportunity sample_assessment new_Executor)
             = failure ''Simulation failed''
           \<and> trace (snd (execute ?threw sample_opportunity sample_assessment new_Executor))
             = trace new_Executor"
    by blast
  from low
       execute_simulation_gate
         [where env = ?low and opp = sample_opportunity and ra = sample_assessment
            and ex = new_Executor and w = main_wallet and p = 0
            and configured = "Some (1 / 1000)"]
  have 3: "fst (execute ?low sample_opportunity sample_assessment new_Executor)
             = failure ''Profit below minimum threshold''
           \<and> trace (snd (execute ?low sample_opportunity sample_assessment new_Executor))
             = trace new_Executor"
    by blast
  from dispatched 1 2 3 show ?thesis by blast
qed

section \<open>The best provider\<close>

lemma bestLoop_spec:
  assumes "bestLoop ps (bp, bs) = (rp, rs)"
    and "case bs of None \<Rightarrow> True
         | Some s \<Rightarrow> \<exists>b. bp = Some b \<and> healthy b \<and> provider_score b = s"
  shows "case rs of
           None \<Rightarrow> bs = None \<and> rp = bp \<and> (\<forall>p\<in>set ps. \<not> healthy p)
         | Some s \<Rightarrow>
             \<exists>b. rp = Some b \<and> healthy b \<and> provider_score b = s
                 \<and> (b \<in> set ps \<or> (bp = Some b \<and> bs \<noteq> None))
                 \<and> (\<forall>q\<in>set ps. healthy q \<longrightarrow> s \<le> provider_score q)
                 \<and> (\<forall>t. bs = Some t \<longrightarrow> s \<le> t)"
  using assms
proof (induction ps arbitrary: bp bs)
  case Nil
  then show ?case by (auto split: option.splits)
next
  case (Cons p ps)
  show ?case
  proof (cases "healthy p")
    case False
    with Cons.prems(1) have run: "bestLoop ps (bp, bs) = (rp, rs)" by simp
    from Cons.IH [OF run Cons.prems(2)] False show ?thesis
      by (auto split: option.splits)
  next
    case True
    show ?thesis
    proof (cases "case bs of None \<Rightarrow> True | Some b \<Rightarrow> provider_score p < b")
      case better: True
      with True Cons.prems(1)
      have run: "bestLoop ps (Some p, Some (provider_score p)) = (rp, rs)"
        by (simp add: Let_def)
      have inv: "case Some (provider_score p) of None \<Rightarrow> True
                 | Some s \<Rightarrow> \<exists>b. Some p = Some b \<and> healthy b \<and> provider_score b = s"
        using True by simp
      from Cons.IH [OF run inv] better show ?thesis
        by (auto split: option.splits)
    next
      case worse: False
      with True Cons.prems(1) have run: "bestLoop ps (bp, bs) = (rp, rs)"
        by (simp add: Let_def)
      from Cons.IH [OF run Cons.prems(2)] worse True show ?thesis
        by (auto split: option.splits)
    qed
  qed
qed

text \<open>
  C9, as the claim states it, fails on the score: among three healthy providers the code
  returns the fast and error-free one, whose score by the claim's formula is neither the
  lowest (the faulty provider's is) nor the highest (the slow provider's is).
\<close>

theorem best_provider_not_by_claimed_score:
  "getBestProvider sample_pool = Some provider_fast
   \<and> healthy provider_faulty \<and> healthy provider_slow \<and> healthy provider_fast
   \<and> spec_score provider_faulty < spec_score provider_fast
   \<and> spec_score provider_fast < spec_score provider_slow
   \<and> provider_score provider_fast < provider_score provider_faulty
   \<and> provider_score provider_fast < provider_score provider_slow"
  by code_simp

text \<open>
  C9, amended. When some provider is healthy, \<open>getBestProvider\<close> returns a healthy
  provider of the pool whose score, average latency plus error rate times 1000 minus
  priority times 10, is the lowest among the healthy providers. When none is healthy it
  returns the primary provider.
\<close>

theorem getBestProvider_lowest_score_healthy:
  "((\<exists>p\<in>set (providers pm). healthy p) \<longrightarrow>
      (\<exists>b. getBestProvider pm = Some b \<and> b \<in> set (providers pm) \<and> healthy b
           \<and> (\<forall>q\<in>set (providers pm). healthy q \<longrightarrow> provider_score b \<le> provider_score q)))
   \<and> ((\<forall>p\<in>set (providers pm). \<not> healthy p) \<longrightarrow> getBestProvider pm = primaryProvider pm)"
proof -
  obtain rp rs where run: "bestLoop (providers pm) (primaryProvider pm, None) = (rp, rs)"
    by (cases "bestLoop (providers pm) (primaryProvider pm, None)") auto
  have res: "getBestProvider pm = rp"
    by (simp add: getBestProvider_def run)
  have inv: "case None :: rat option of None \<Rightarrow> True
             | Some s \<Rightarrow> \<exists>b. primaryProvider pm = Some b \<and> healthy b \<and> provider_score b = s"
    by simp
  note spec = bestLoop_spec [OF run inv]
  show ?thesis
  proof (cases rs)
    case None
    with spec res show ?thesis by auto
  next
    case (Some s)
    with spec res show ?thesis by auto
  qed
qed

theorem getBestProvider_lowest_score_healthy_witness:
  "healthy provider_fast \<and> provider_fast \<in> set (providers sample_pool)
   \<and> (\<exists>b. getBestProvider sample_pool = Some b \<and> b \<in> set (providers sample_pool) \<and> healthy b
          \<and> provider_score b \<le> provider_score provider_faulty
          \<and> provider_score b \<le> provider_score provider_slow
          \<and> provider_score b \<le> provider_score provider_fast)
   \<and> providers (sample_pool\<lparr>providers := []\<rparr>) = []
   \<and> getBestProvider (sample_pool\<lparr>providers := []\<rparr>) = Some provider_faulty"
proof -
  have hf: "healthy provider_fast" "healthy provider_faulty" "healthy provider_slow"
    by (simp_all add: provider_fast_def provider_faulty_def provider_slow_def)
  have mem: "provider_fast \<in> set (providers sample_pool)"
            "provider_faulty \<in> set (providers sample_pool)"
            "provider_slow \<in> set (providers sample_pool)"
    by (simp_all add: sample_pool_def)
  from hf(1) mem(1) have h: "\<exists>p\<in>set (providers sample_pool). healthy p" by blast
  have e: "\<forall>p\<in>set (providers (sample_pool\<lparr>providers := []\<rparr>)). \<not> healthy p"
    by simp
  have prim: "primaryProvider (sample_pool\<lparr>providers := []\<rparr>) = Some provider_faulty"
    by (simp add: sample_pool_def)
  from h getBestProvider_lowest_score_healthy [of sample_pool]
  obtain b where b: "getBestProvider sample_pool = Some b" "b \<in> set (providers sample_pool)"
      "healthy b"
      "\<forall>q\<in>set (providers sample_pool). healthy q \<longrightarrow> provider_score b \<le> provider_score q"
    by blast
  from b(4) hf mem have
    "provider_score b \<le> provider_score provider_faulty"
    "provider_score b \<le> provider_score provider_slow"
    "provider_score b \<le> provider_score provider_fast"
    by blast+
  with b have 1: "\<exists>b. getBestProvider sample_pool = Some b \<and> b \<in> set (providers sample_pool)
          \<and> healthy b
          \<and> provider_score b \<le> provider_score provider_faulty
          \<and> provider_score b \<le> provider_score provider_slow
          \<and> provider_score b \<le> provider_score provider_fast"
    by blast
  from e getBestProvider_lowest_score_healthy [of "sample_pool\<lparr>providers := []\<rparr>"] prim
  have 2: "getBestProvider (sample_pool\<lparr>providers := []\<rparr>) = Some provider_faulty"
    by simp
  have 3: "providers (sample_pool\<lparr>providers := []\<rparr>) = []" by simp
  from hf(1) mem(1) 1 2 3 show ?thesis by blast
qed

section \<open>Deduplication in the monitor\<close>

lemma isTargetTransaction_frame:
  "targetContracts m' = targetContracts m
   \<Longrightarrow> isTargetTransaction m' t = isTargetTransaction m t"
  by (simp add: isTargetTransaction_def cong: option.case_cong)

lemma isInterestingTransaction_frame:
  "targetContracts m' = targetContracts m \<Longrightarrow> minTransactionValue m' = minTransactionValue m
   \<Longrightarrow> isInterestingTransaction m' t = isInterestingTransaction m t"
  by (simp add: isInterestingTransaction_def isTargetTransaction_frame [of m' m])

lemma emitSpecificEvents_frame:
  "highValueThreshold m' = highValueThreshold m
   \<Longrightarrow> emitSpecificEvents m' t d = emitSpecificEvents m t d"
  by (simp add: emitSpecificEvents_def)

lemma emitted_for_frame:
  assumes "targetContracts m' = targetContracts m"
    and "minTransactionValue m' = minTransactionValue m"
    and "highValueThreshold m' = highValueThreshold m"
  shows "emitted_for decode m' t source = emitted_for decode m t source"
  unfolding emitted_for_def
    isInterestingTransaction_frame [OF assms(1) assms(2)]
    emitSpecificEvents_frame [OF assms(3)]
  by (rule refl)

lemma processTransaction_events:
  "events (processTransaction decode t source m) = events m @ emitted_for decode m t source"
proof -
  let ?p = "m\<lparr>processedTxs := insert (hash t) (processedTxs m),
              transactionsAnalyzed := Suc (transactionsAnalyzed m),
              mempoolTxAnalyzed := Suc (mempoolTxAnalyzed m)\<rparr>"
  let ?b = "m\<lparr>processedTxs := insert (hash t) (processedTxs m),
              transactionsAnalyzed := Suc (transactionsAnalyzed m)\<rparr>"
  have ip: "isInterestingTransaction ?p t = isInterestingTransaction m t"
    by (rule isInterestingTransaction_frame) simp_all
  have ib: "isInterestingTransaction ?b t = isInterestingTransaction m t"
    by (rule isInterestingTransaction_frame) simp_all
  have sp: "\<And>d. emitSpecificEvents ?p t d = emitSpecificEvents m t d"
    by (rule emitSpecificEvents_frame) simp
  have sb: "\<And>d. emitSpecificEvents ?b t d = emitSpecificEvents m t d"
    by (rule emitSpecificEvents_frame) simp
  show ?thesis
    by (cases "source = Pending"; cases "decode t")
       (simp_all add: processTransaction_def emitted_for_def Let_def ip ib sp sb)
qed

lemma processTransaction_config:
  "targetContracts (processTransaction decode t source m) = targetContracts m"
  "minTransactionValue (processTransaction decode t source m) = minTransactionValue m"
  "highValueThreshold (processTransaction decode t source m) = highValueThreshold m"
  by (cases "decode t"; simp add: processTransaction_def Let_def)+

lemma processTransaction_marks:
  "hash t \<in> processedTxs (processTransaction decode t source m)"
  by (cases "decode t"; simp add: processTransaction_def Let_def)

lemma block_transactions_events:
  "events (foldl (\<lambda>acc t. processTransaction decode t FromBlock acc) m ts)
   = events m @ concat (map (\<lambda>t. emitted_for decode m t FromBlock) ts)"
proof (induction ts arbitrary: m)
  case Nil
  show ?case by simp
next
  case (Cons t ts)
  let ?m = "processTransaction decode t FromBlock m"
  have same: "\<And>u. emitted_for decode ?m u FromBlock = emitted_for decode m u FromBlock"
    by (rule emitted_for_frame) (simp_all add: processTransaction_config)
  show ?case
    by (simp add: Cons.IH [of ?m] processTransaction_events same)
qed

lemma cleanupCache_events: "events (cleanupCache m) = events m"
  by (simp add: cleanupCache_def Let_def)

lemma blockSubscription_events:
  "events (blockSubscription decode (Some b) m)
   = events m @ concat (map (\<lambda>t. emitted_for decode m t FromBlock) (transactions b))
     @ [BlockEvent (number b)]"
proof -
  let ?m1 = "m\<lparr>blocksProcessed := blocksProcessed m + 1\<rparr>"
  let ?m2 = "foldl (\<lambda>acc t. processTransaction decode t FromBlock acc) ?m1 (transactions b)"
  have same: "\<And>u. emitted_for decode ?m1 u FromBlock = emitted_for decode m u FromBlock"
    by (rule emitted_for_frame) simp_all
  have "events ?m2
        = events ?m1 @ concat (map (\<lambda>t. emitted_for decode ?m1 t FromBlock) (transactions b))"
    by (rule block_transactions_events)
  then have m2: "events ?m2
        = events m @ concat (map (\<lambda>t. emitted_for decode m t FromBlock) (transactions b))"
    unfolding same by simp
  have "events (blockSubscription decode (Some b) m) = events ?m2 @ [BlockEvent (number b)]"
    by (simp add: blockSubscription_def Let_def cleanupCache_events)
  with m2 show ?thesis by simp
qed

lemma blockSubscription_ignores_processedTxs:
  "events (blockSubscription decode blk (m\<lparr>processedTxs := seen\<rparr>))
   = events (blockSubscription decode blk m)"
proof (cases blk)
  case None
  then show ?thesis by (simp add: blockSubscription_def)
next
  case (Some b)
  have same: "\<And>u. emitted_for decode (m\<lparr>processedTxs := seen\<rparr>) u FromBlock
                  = emitted_for decode m u FromBlock"
    by (rule emitted_for_frame) simp_all
  show ?thesis
    unfolding Some blockSubscription_events same by simp
qed

text \<open>Evaluation of the sample transaction.\<close>

lemma sample_tx_target:
  "isTargetTransaction m sample_tx = (''0xrouter'' \<in> targetContracts m)"
  by (simp add: isTargetTransaction_def sample_tx_def toLowerCase_def lower_char_def)

lemma sample_tx_emitted:
  assumes "minTransactionValue m = 10 ^ 17" and "highValueThreshold m = 10 * 10 ^ 18"
  shows "emitted_for sample_decode m sample_tx source
         = [TransactionEvent ''0xabc'' source, SwapEvent ''0xabc'', HighValueEvent ''0xabc'']"
  using assms
  by (simp add: emitted_for_def isInterestingTransaction_def emitSpecificEvents_def
        sample_tx_def sample_decode_def truthy_str_def)

lemma sample_pending:
  "pendingSubscription sample_decode sample_getTransaction ''0xabc'' sample_monitor
   = processTransaction sample_decode sample_tx Pending sample_monitor"
proof -
  have "''0xabc'' \<notin> processedTxs sample_monitor"
    by (simp add: sample_monitor_def)
  moreover have "sample_getTransaction ''0xabc'' = Some sample_tx"
    by (simp add: sample_getTransaction_def)
  moreover have "isTargetTransaction sample_monitor sample_tx"
    by (simp add: sample_tx_target sample_monitor_def)
  ultimately show ?thesis
    by (simp add: pendingSubscription_def)
qed

text \<open>
  C2, as the claim states it, fails for a block: the sample transaction arrives as a
  pending notification and is emitted (transaction, swap, high value); its hash is then in
  \<open>processedTxs\<close>; the block that contains it emits the same three events again.
\<close>

theorem processed_hash_emitted_again_from_block:
  "events (pendingSubscription sample_decode sample_getTransaction ''0xabc'' sample_monitor)
     = [TransactionEvent ''0xabc'' Pending, SwapEvent ''0xabc'', HighValueEvent ''0xabc'']
   \<and> ''0xabc'' \<in> processedTxs
         (pendingSubscription sample_decode sample_getTransaction ''0xabc'' sample_monitor)
   \<and> events (blockSubscription sample_decode (Some sample_block)
         (pendingSubscription sample_decode sample_getTransaction ''0xabc'' sample_monitor))
     = [TransactionEvent ''0xabc'' Pending, SwapEvent ''0xabc'', HighValueEvent ''0xabc'',
        TransactionEvent ''0xabc'' FromBlock, SwapEvent ''0xabc'', HighValueEvent ''0xabc'',
        BlockEvent 1]"
proof -
  let ?m1 = "processTransaction sample_decode sample_tx Pending sample_monitor"
  have cfg: "minTransactionValue sample_monitor = 10 ^ 17"
            "highValueThreshold sample_monitor = 10 * 10 ^ 18"
            "events sample_monitor = []"
    by (simp_all add: sample_monitor_def)
  have cfg1: "minTransactionValue ?m1 = 10 ^ 17" "highValueThreshold ?m1 = 10 * 10 ^ 18"
    by (simp_all add: processTransaction_config cfg)
  have e1: "events ?m1
            = [TransactionEvent ''0xabc'' Pending, SwapEvent ''0xabc'', HighValueEvent ''0xabc'']"
    by (simp add: processTransaction_events sample_tx_emitted [OF cfg(1) cfg(2)] cfg(3))
  have "hash sample_tx \<in> processedTxs ?m1"
    by (rule processTransaction_marks)
  then have seen: "''0xabc'' \<in> processedTxs ?m1"
    by (simp add: sample_tx_def)
  have e2: "events (blockSubscription sample_decode (Some sample_block) ?m1)
            = events ?m1 @ [TransactionEvent ''0xabc'' FromBlock, SwapEvent ''0xabc'',
                            HighValueEvent ''0xabc'', BlockEvent 1]"
    by (simp add: blockSubscription_events sample_block_def
          sample_tx_emitted [OF cfg1(1) cfg1(2)])
  from e1 seen e2 show ?thesis
    by (simp add: sample_pending)
qed

text \<open>
  C2, amended. A pending notification for a hash that is in \<open>processedTxs\<close> emits nothing
  and changes nothing. The events a block emits are the same whatever \<open>processedTxs\<close>
  holds: each of its transactions is classified and emitted whether or not its hash was
  processed before, and is marked as processed.
\<close>

theorem pending_dedup_only:
  "(txHash \<in> processedTxs m \<longrightarrow> pendingSubscription decode getTransaction txHash m = m)
   \<and> events (blockSubscription decode blk (m\<lparr>processedTxs := seen\<rparr>))
       = events (blockSubscription decode blk m)
   \<and> events (processTransaction decode t FromBlock m)
       = events m @ emitted_for decode m t FromBlock
   \<and> hash t \<in> processedTxs (processTransaction decode t source m)"
  using blockSubscription_ignores_processedTxs [where decode = decode and blk = blk and m = m
          and seen = seen]
        processTransaction_events [where decode = decode and t = t and source = FromBlock
          and m = m]
        processTransaction_marks [where t = t and decode = decode and source = source and m = m]
  by (simp add: pendingSubscription_def)

theorem pending_dedup_only_witness:
  "''0xabc'' \<in> processedTxs
       (pendingSubscription sample_decode sample_getTransaction ''0xabc'' sample_monitor)
   \<and> pendingSubscription sample_decode sample_getTransaction ''0xabc''
         (pendingSubscription sample_decode sample_getTransaction ''0xabc'' sample_monitor)
       = pendingSubscription sample_decode sample_getTransaction ''0xabc'' sample_monitor"
proof -
  let ?m1 = "pendingSubscription sample_decode sample_getTransaction ''0xabc'' sample_monitor"
  have "hash sample_tx \<in> processedTxs
          (processTransaction sample_decode sample_tx Pending sample_monitor)"
    by (rule processTransaction_marks)
  then have seen: "''0xabc'' \<in> processedTxs ?m1"
    by (simp add: sample_pending sample_tx_def)
  with pending_dedup_only
         [where txHash = "''0xabc''" and m = ?m1 and decode = sample_decode
            and getTransaction = sample_getTransaction]
  show ?thesis by blast
qed

section \<open>Monotonicity of the composite score\<close>

lemma js_add_zero [simp]: "js_add x (Fin 0) = x" "js_add (Fin 0) x = x"
  by (cases x; simp)+

lemma js_add_commute: "js_add x y = js_add y x"
  by (cases x; cases y; simp)

lemma js_add_assoc: "js_add (js_add x y) z = js_add x (js_add y z)"
  by (cases x; cases y; cases z; simp)

lemma js_add_left_commute: "js_add x (js_add y z) = js_add y (js_add x z)"
  by (cases x; cases y; cases z; simp)

lemma js_lt_irrefl [simp]: "\<not> js_lt x x"
  by (cases x) simp_all

lemma parseFloat_num_of: "parseFloat v = Fin (num_of v)"
  by (cases v) simp_all

lemma js_sum_append: "js_sum (xs @ ys) = js_add (js_sum xs) (js_sum ys)"
  by (induction xs) (simp_all add: js_add_assoc)

lemma scoreLoop_sum:
  "scoreLoop cs (ts, tw)
   = (js_add ts (js_sum (map penalty cs)), tw + sum_list (map effective_weight cs))"
proof (induction cs arbitrary: ts tw)
  case Nil
  show ?case by simp
next
  case (Cons c cs)
  show ?case
    by (simp add: Cons.IH penalty_def Let_def js_add_assoc add.assoc)
qed

lemma calculateRiskScore_sum:
  "calculateRiskScore cs
   = js_min (Fin 10) (js_div (js_sum (map penalty cs))
                             (Fin (sum_list (map effective_weight cs))))"
  by (simp add: calculateRiskScore_def scoreLoop_sum)

lemma js_sum_middle:
  "js_sum (map penalty (xs @ c # ys))
   = js_add (penalty c) (js_add (js_sum (map penalty xs)) (js_sum (map penalty ys)))"
  by (simp add: js_sum_append js_add_left_commute)

lemma weights_middle:
  "sum_list (map effective_weight (xs @ c # ys))
   = effective_weight c + (sum_list (map effective_weight xs) + sum_list (map effective_weight ys))"
  by simp

lemma weights_positive:
  assumes "\<forall>d\<in>set cs. 0 < effective_weight d" and "cs \<noteq> []"
  shows "0 < sum_list (map effective_weight cs)"
  using assms
proof (induction cs)
  case Nil
  then show ?case by simp
next
  case (Cons c cs)
  show ?case
  proof (cases "cs = []")
    case True
    with Cons.prems show ?thesis by simp
  next
    case False
    with Cons have "0 < sum_list (map effective_weight cs)" by simp
    moreover from Cons.prems have "0 < effective_weight c" by simp
    ultimately show ?thesis by simp
  qed
qed

lemma penalty_failed: "\<not> passed c \<Longrightarrow> penalty c = Fin (effective_weight c * 10)"
  by (simp add: penalty_def)

lemma penalty_passed:
  assumes "passed c" and "scaled c k" and "0 < effective_weight c" and "0 \<le> k"
  shows "\<exists>x. penalty c = Fin x \<and> x \<le> effective_weight c * (k * 5)"
proof (cases "truthy (cvalue c) \<and> truthy (maxValue c)")
  case False
  with assms show ?thesis by (auto simp add: penalty_def)
next
  case True
  let ?v = "num_of (the (cvalue c))" and ?m = "num_of (the (maxValue c))"
  from assms(1,2) True have m: "0 < ?m" and v: "?v \<le> k * ?m"
    by (simp_all add: scaled_def)
  from m v have ratio: "?v / ?m \<le> k"
    by (simp add: pos_divide_le_eq)
  have "penalty c = Fin (effective_weight c * (?v / ?m) * 5)"
    using True assms(1) m by (simp add: penalty_def parseFloat_num_of)
  moreover have "effective_weight c * (?v / ?m) * 5 \<le> effective_weight c * (k * 5)"
  proof -
    have five: "(0::rat) \<le> 5" by simp
    from mult_right_mono [OF ratio five] have "(?v / ?m) * 5 \<le> k * 5" .
    moreover from assms(3) have "0 \<le> effective_weight c" by simp
    ultimately have "effective_weight c * ((?v / ?m) * 5) \<le> effective_weight c * (k * 5)"
      by (rule mult_left_mono)
    then show ?thesis by (simp only: mult.assoc)
  qed
  ultimately show ?thesis by blast
qed

lemma penalty_finite:
  assumes "scaled c k"
  shows "\<exists>x. penalty c = Fin x"
proof (cases "passed c \<and> truthy (cvalue c) \<and> truthy (maxValue c)")
  case False
  then show ?thesis by (auto simp add: penalty_def)
next
  case True
  with assms have "0 < num_of (the (maxValue c))" by (simp add: scaled_def)
  with True show ?thesis by (simp add: penalty_def parseFloat_num_of)
qed

lemma js_sum_finite:
  "\<forall>d\<in>set cs. scaled d k \<Longrightarrow> \<exists>r. js_sum (map penalty cs) = Fin r"
proof (induction cs)
  case Nil
  show ?case by simp
next
  case (Cons c cs)
  then obtain r where "js_sum (map penalty cs) = Fin r" by auto
  moreover from Cons.prems obtain x where "penalty c = Fin x"
    using penalty_finite [of c k] by auto
  ultimately show ?case by simp
qed

lemma score_step_not_lower:
  assumes "x \<le> y" and "0 < w"
  shows "\<not> js_lt (js_min (Fin 10) (js_div (js_add (Fin y) others) (Fin w)))
                  (js_min (Fin 10) (js_div (js_add (Fin x) others) (Fin w)))"
proof (cases others)
  case (Fin r)
  from assms have "(x + r) / w \<le> (y + r) / w"
    by (simp add: divide_right_mono)
  with Fin assms(2) show ?thesis by auto
qed simp_all

lemma score_step_finite:
  assumes "x \<le> y" and "0 < w"
  shows "\<exists>a b. js_min (Fin 10) (js_div (js_add (Fin x) (Fin r)) (Fin w)) = Fin a
             \<and> js_min (Fin 10) (js_div (js_add (Fin y) (Fin r)) (Fin w)) = Fin b \<and> a \<le> b"
proof -
  from assms have "(x + r) / w \<le> (y + r) / w"
    by (simp add: divide_right_mono)
  with assms(2) show ?thesis by auto
qed

text \<open>A failed check of the same weight in place of a passed one.\<close>

lemma same_weight_never_lowers_score:
  assumes "\<forall>d\<in>set (xs @ c # ys). 0 < effective_weight d"
    and "passed c" and "scaled c 2"
    and "\<not> passed c'" and "effective_weight c' = effective_weight c"
  shows "\<not> js_lt (calculateRiskScore (xs @ c' # ys)) (calculateRiskScore (xs @ c # ys))
         \<and> ((\<forall>d\<in>set (xs @ ys). scaled d k) \<longrightarrow>
              (\<exists>a b. calculateRiskScore (xs @ c # ys) = Fin a
                    \<and> calculateRiskScore (xs @ c' # ys) = Fin b \<and> a \<le> b))"
proof -
  let ?w = "effective_weight c"
  let ?W = "sum_list (map effective_weight (xs @ c # ys))"
  let ?R = "js_add (js_sum (map penalty xs)) (js_sum (map penalty ys))"
  have w: "0 < ?w" using assms(1) by simp
  have W: "0 < ?W" using assms(1) by (intro weights_positive) simp_all
  have W': "sum_list (map effective_weight (xs @ c' # ys)) = ?W"
    using assms(5) by simp
  from penalty_passed [OF assms(2) assms(3) w]
  obtain x where x: "penalty c = Fin x" and xle: "x \<le> ?w * 10"
    by auto
  have y: "penalty c' = Fin (?w * 10)"
    using penalty_failed [OF assms(4)] assms(5) by simp
  have old: "calculateRiskScore (xs @ c # ys)
             = js_min (Fin 10) (js_div (js_add (Fin x) ?R) (Fin ?W))"
    by (simp only: calculateRiskScore_sum js_sum_middle x)
  have new: "calculateRiskScore (xs @ c' # ys)
             = js_min (Fin 10) (js_div (js_add (Fin (?w * 10)) ?R) (Fin ?W))"
    by (simp only: calculateRiskScore_sum js_sum_middle y W')
  have first: "\<not> js_lt (calculateRiskScore (xs @ c' # ys)) (calculateRiskScore (xs @ c # ys))"
    unfolding old new using xle W by (rule score_step_not_lower)
  have second: "\<exists>a b. calculateRiskScore (xs @ c # ys) = Fin a
                    \<and> calculateRiskScore (xs @ c' # ys) = Fin b \<and> a \<le> b"
    if others: "\<forall>d\<in>set (xs @ ys). scaled d k"
  proof -
    from others have "\<forall>d\<in>set xs. scaled d k" and "\<forall>d\<in>set ys. scaled d k"
      by simp_all
    then obtain r1 r2 where "js_sum (map penalty xs) = Fin r1" "js_sum (map penalty ys) = Fin r2"
      using js_sum_finite by blast
    then have R: "?R = Fin (r1 + r2)" by simp
    show ?thesis
      unfolding old new R using xle W by (rule score_step_finite)
  qed
  from first second show ?thesis by blast
qed

text \<open>
  The failed check may weigh more than the passed one did, as the profit ratio check (7
  when it ran, 9 when the profit figures are missing) and the liquidity check (3 when
  there is no trade size, 5 otherwise) do. Then every other check has to add at most 10
  times its weight.
\<close>

lemma js_sum_bounded:
  assumes "\<forall>d\<in>set cs. 0 < effective_weight d \<and> scaled d 2"
  shows "\<exists>r. js_sum (map penalty cs) = Fin r \<and> r \<le> 10 * sum_list (map effective_weight cs)"
  using assms
proof (induction cs)
  case Nil
  show ?case by simp
next
  case (Cons c cs)
  then obtain r where r: "js_sum (map penalty cs) = Fin r"
      "r \<le> 10 * sum_list (map effective_weight cs)"
    by auto
  from Cons.prems have w: "0 < effective_weight c" and s: "scaled c 2" by simp_all
  have "\<exists>x. penalty c = Fin x \<and> x \<le> effective_weight c * 10"
  proof (cases "passed c")
    case True
    from penalty_passed [OF True s w] show ?thesis by auto
  next
    case False
    then show ?thesis by (simp add: penalty_failed)
  qed
  then obtain x where x: "penalty c = Fin x" "x \<le> effective_weight c * 10" by blast
  from r x show ?case by (simp add: algebra_simps)
qed

lemma heavier_average:
  fixes x r w w' W :: rat
  assumes "x \<le> 10 * w" and "r \<le> 10 * W" and "0 < w" and "w \<le> w'" and "0 \<le> W"
  shows "(x + r) / (w + W) \<le> (10 * w' + r) / (w' + W)"
proof -
  have pos: "0 < w + W" "0 < w' + W" using assms by simp_all
  have a: "x * w' \<le> 10 * w * w'"
    using assms(1,3,4) by (intro mult_right_mono) simp_all
  have b: "x * W \<le> 10 * w * W"
    using assms(1,5) by (intro mult_right_mono) simp_all
  have c: "r * (w' - w) \<le> 10 * W * (w' - w)"
    using assms(2,4) by (intro mult_right_mono) simp_all
  have "(x + r) * (w' + W) = x * w' + x * W + r * (w' - w) + r * w + r * W"
    by (simp add: algebra_simps)
  also have "\<dots> \<le> 10 * w * w' + 10 * w * W + 10 * W * (w' - w) + r * w + r * W"
    using a b c by simp
  also have "\<dots> = (10 * w' + r) * (w + W)"
    by (simp add: algebra_simps)
  finally have "(x + r) * (w' + W) \<le> (10 * w' + r) * (w + W)" .
  with pos show ?thesis
    by (simp add: field_simps)
qed

lemma heavier_weight_never_lowers_score:
  assumes "\<forall>d\<in>set (xs @ ys). 0 < effective_weight d \<and> scaled d 2"
    and "0 < effective_weight c" and "passed c" and "scaled c 2"
    and "\<not> passed c'" and "effective_weight c \<le> effective_weight c'"
  shows "\<exists>a b. calculateRiskScore (xs @ c # ys) = Fin a
             \<and> calculateRiskScore (xs @ c' # ys) = Fin b \<and> a \<le> b"
proof -
  let ?w = "effective_weight c" and ?w' = "effective_weight c'"
  let ?W = "sum_list (map effective_weight (xs @ ys))"
  from js_sum_bounded [OF assms(1)]
  obtain r where r: "js_sum (map penalty (xs @ ys)) = Fin r" and rle: "r \<le> 10 * ?W"
    by blast
  have W: "0 \<le> ?W"
    using assms(1) by (intro sum_list_nonneg) (auto intro: less_imp_le)
  from penalty_passed [OF assms(3) assms(4) assms(2)]
  obtain x where x: "penalty c = Fin x" and xle: "x \<le> 10 * ?w"
    by (auto simp add: mult.commute)
  have y: "penalty c' = Fin (10 * ?w')"
    using penalty_failed [OF assms(5)] by (simp add: mult.commute)
  have others: "js_add (js_sum (map penalty xs)) (js_sum (map penalty ys)) = Fin r"
    using r by (simp add: js_sum_append)
  have div: "\<And>a b :: rat. 0 < b \<Longrightarrow> js_div (js_add (Fin a) (Fin r)) (Fin b) = Fin ((a + r) / b)"
    by simp
  have Wold: "sum_list (map effective_weight (xs @ c # ys)) = ?w + ?W" by simp
  have Wnew: "sum_list (map effective_weight (xs @ c' # ys)) = ?w' + ?W" by simp
  have pos: "0 < ?w + ?W" "0 < ?w' + ?W" using assms(2,6) W by simp_all
  have old: "calculateRiskScore (xs @ c # ys)
             = js_min (Fin 10) (Fin ((x + r) / (?w + ?W)))"
    by (simp only: calculateRiskScore_sum js_sum_middle x others Wold div [OF pos(1)])
  have new: "calculateRiskScore (xs @ c' # ys)
             = js_min (Fin 10) (Fin ((10 * ?w' + r) / (?w' + ?W)))"
    by (simp only: calculateRiskScore_sum js_sum_middle y others Wnew div [OF pos(2)])
  from heavier_average [OF xle rle assms(2) assms(6) W]
  have "(x + r) / (?w + ?W) \<le> (10 * ?w' + r) / (?w' + ?W)" .
  then show ?thesis
    unfolding old new by auto
qed

text \<open>
  C7. Take a list of checks with positive weights and replace one passed check by a failed
  one, all other checks unchanged. The passed check, if it carries a value and a limit, has
  a positive limit and a value at most twice the limit (the risk manager's own checks pass
  only with a value at most the limit), so that it added at most 10 times its weight. If
  the failed check has the weight of the passed one, the score returned by
  \<open>calculateRiskScore\<close> is not lower than before. If the failed check weighs at least as
  much as the passed one and every other check meets the same bound, both scores are
  finite numbers and the second is at least the first.
\<close>

theorem failing_a_check_never_lowers_score:
  assumes "\<forall>d\<in>set (xs @ c # ys). 0 < effective_weight d"
    and "passed c" and "scaled c 2" and "\<not> passed c'"
  shows "(effective_weight c' = effective_weight c \<longrightarrow>
            \<not> js_lt (calculateRiskScore (xs @ c' # ys)) (calculateRiskScore (xs @ c # ys)))
         \<and> (effective_weight c \<le> effective_weight c' \<and> (\<forall>d\<in>set (xs @ ys). scaled d 2) \<longrightarrow>
              (\<exists>a b. calculateRiskScore (xs @ c # ys) = Fin a
                    \<and> calculateRiskScore (xs @ c' # ys) = Fin b \<and> a \<le> b))"
proof (intro conjI impI)
  assume "effective_weight c' = effective_weight c"
  with same_weight_never_lowers_score [OF assms(1) assms(2) assms(3) assms(4), of 2]
  show "\<not> js_lt (calculateRiskScore (xs @ c' # ys)) (calculateRiskScore (xs @ c # ys))"
    by blast
next
  assume a: "effective_weight c \<le> effective_weight c' \<and> (\<forall>d\<in>set (xs @ ys). scaled d 2)"
  from assms(1) a have others: "\<forall>d\<in>set (xs @ ys). 0 < effective_weight d \<and> scaled d 2"
    by auto
  from assms(1) have w: "0 < effective_weight c" by simp
  from a have le: "effective_weight c \<le> effective_weight c'" by blast
  show "\<exists>a b. calculateRiskScore (xs @ c # ys) = Fin a
            \<and> calculateRiskScore (xs @ c' # ys) = Fin b \<and> a \<le> b"
    by (rule heavier_weight_never_lowers_score [OF others w assms(2) assms(3) assms(4) le])
qed

theorem failing_a_check_never_lowers_score_witness:
  "0 < effective_weight lossCheck_passed \<and> 0 < effective_weight gasCheck_passed
   \<and> 0 < effective_weight profitCheck_passed
   \<and> passed gasCheck_passed \<and> scaled gasCheck_passed 2 \<and> \<not> passed gasCheck_failed
   \<and> effective_weight gasCheck_failed = effective_weight gasCheck_passed
   \<and> calculateRiskScore ([lossCheck_passed] @ gasCheck_passed # []) = Fin (9 / 16)
   \<and> calculateRiskScore ([lossCheck_passed] @ gasCheck_failed # []) = Fin (15 / 4)
   \<and> \<not> js_lt (calculateRiskScore ([lossCheck_passed] @ gasCheck_failed # []))
               (calculateRiskScore ([lossCheck_passed] @ gasCheck_passed # []))
   \<and> passed profitCheck_passed \<and> scaled profitCheck_passed 2 \<and> \<not> passed profitCheck_invalid
   \<and> effective_weight profitCheck_passed \<le> effective_weight profitCheck_invalid
   \<and> scaled lossCheck_passed 2 \<and> scaled gasCheck_passed 2
   \<and> calculateRiskScore ([lossCheck_passed] @ profitCheck_passed # [gasCheck_passed])
       = Fin (9 / 23)
   \<and> calculateRiskScore ([lossCheck_passed] @ profitCheck_invalid # [gasCheck_passed])
       = Fin (99 / 25)
   \<and> (\<exists>a b. calculateRiskScore ([lossCheck_passed] @ profitCheck_passed # [gasCheck_passed])
               = Fin a
            \<and> calculateRiskScore ([lossCheck_passed] @ profitCheck_invalid # [gasCheck_passed])
               = Fin b
            \<and> a \<le> b)"
proof -
  have w: "0 < effective_weight lossCheck_passed" "0 < effective_weight gasCheck_passed"
          "0 < effective_weight profitCheck_passed"
    by (simp_all add: lossCheck_passed_def gasCheck_passed_def profitCheck_passed_def
          effective_weight_def)
  have g: "passed gasCheck_passed" "scaled gasCheck_passed 2" "\<not> passed gasCheck_failed"
          "effective_weight gasCheck_failed = effective_weight gasCheck_passed"
    by (simp_all add: gasCheck_passed_def gasCheck_failed_def scaled_def effective_weight_def)
  have p: "passed profitCheck_passed" "scaled profitCheck_passed 2"
          "\<not> passed profitCheck_invalid"
          "effective_weight profitCheck_passed \<le> effective_weight profitCheck_invalid"
          "scaled lossCheck_passed 2"
    by (simp_all add: profitCheck_passed_def profitCheck_invalid_def lossCheck_passed_def
          scaled_def effective_weight_def)
  have v: "calculateRiskScore ([lossCheck_passed] @ gasCheck_passed # []) = Fin (9 / 16)"
          "calculateRiskScore ([lossCheck_passed] @ gasCheck_failed # []) = Fin (15 / 4)"
          "calculateRiskScore ([lossCheck_passed] @ profitCheck_passed # [gasCheck_passed])
             = Fin (9 / 23)"
          "calculateRiskScore ([lossCheck_passed] @ profitCheck_invalid # [gasCheck_passed])
             = Fin (99 / 25)"
    by code_simp+
  from w have h1: "\<forall>d\<in>set ([lossCheck_passed] @ gasCheck_passed # []). 0 < effective_weight d"
    by simp
  from failing_a_check_never_lowers_score [OF h1 g(1) g(2) g(3)] g(4)
  have 1: "\<not> js_lt (calculateRiskScore ([lossCheck_passed] @ gasCheck_failed # []))
                    (calculateRiskScore ([lossCheck_passed] @ gasCheck_passed # []))"
    by blast
  from w have h2: "\<forall>d\<in>set ([lossCheck_passed] @ profitCheck_passed # [gasCheck_passed]).
                      0 < effective_weight d"
    by simp
  from p(5) g(2) have h3: "\<forall>d\<in>set ([lossCheck_passed] @ [gasCheck_passed]). scaled d 2"
    by simp
  from failing_a_check_never_lowers_score [OF h2 p(1) p(2) p(3)] p(4) h3
  have 2: "\<exists>a b. calculateRiskScore ([lossCheck_passed] @ profitCheck_passed # [gasCheck_passed])
               = Fin a
            \<and> calculateRiskScore ([lossCheck_passed] @ profitCheck_invalid # [gasCheck_passed])
               = Fin b
            \<and> a \<le> b"
    by blast
  from w g p v 1 2 show ?thesis by blast
qed

text \<open>
  The checks that \<open>assessOpportunity\<close> builds meet the hypotheses of the theorem, with
  \<open>k = 1\<close>, whenever the position and gas price limits are positive: every weight is
  positive, and a check passes only with its value at most its limit.
\<close>

lemma maxRiskLoop_lower: "a \<le> fst (maxRiskLoop scores ts (a, r))"
proof (induction ts arbitrary: a r)
  case Nil
  show ?case by simp
next
  case (Cons t ts)
  show ?case
  proof (cases "num_or (scores t) 5 > a")
    case True
    have "num_or (scores t) 5 \<le> fst (maxRiskLoop scores ts (num_or (scores t) 5, Some t))"
      by (rule Cons.IH)
    with True show ?thesis by (simp add: Let_def)
  next
    case False
    with Cons.IH [of a r] show ?thesis by (simp add: Let_def)
  qed
qed

lemma scaled_no_limit: "maxValue c = None \<Longrightarrow> scaled c k"
  by (simp add: scaled_def)

lemma checkDailyLossLimit_scaled:
  "0 < effective_weight (checkDailyLossLimit rm) \<and> scaled (checkDailyLossLimit rm) 1"
  by (simp add: checkDailyLossLimit_def Let_def effective_weight_def scaled_def)

lemma checkPositionSize_scaled:
  assumes "0 < maxPositionSize rm"
  shows "0 < effective_weight (checkPositionSize rm opp) \<and> scaled (checkPositionSize rm opp) 1"
  using assms
  by (simp add: checkPositionSize_def Let_def effective_weight_def scaled_def formatEther_def
        divide_right_mono)

lemma checkGasPrice_scaled:
  assumes "0 < maxGasPrice rm"
  shows "0 < effective_weight (checkGasPrice rm opp) \<and> scaled (checkGasPrice rm opp) 1"
  using assms
  by (simp add: checkGasPrice_def Let_def effective_weight_def scaled_def formatGwei_def
        divide_right_mono)

lemma checkProfitRatio_scaled:
  "checkProfitRatio rm opp = Inr c \<Longrightarrow> 0 < effective_weight c \<and> scaled c 1"
  by (auto simp add: checkProfitRatio_def Let_def effective_weight_def scaled_def
      split: option.splits sum.splits if_splits)

lemma checkLiquidity_scaled:
  "checkLiquidity rm opp = Inr c \<Longrightarrow> 0 < effective_weight c \<and> scaled c 1"
  by (auto simp add: checkLiquidity_def Let_def effective_weight_def scaled_def
      split: option.splits sum.splits if_splits)

lemma risk_check_scaled:
  assumes "0 \<le> maxRisk"
  shows "scaled \<lparr>name = n, passed = (maxRisk \<le> allowed), cvalue = Some (Numv maxRisk),
                 maxValue = Some (Numv allowed), minValue = None, reason = why, weight = w\<rparr> 1"
  using assms by (auto simp add: scaled_def)

lemma checkTokenRisk_scaled:
  "0 < effective_weight (checkTokenRisk rm opp) \<and> scaled (checkTokenRisk rm opp) 1"
proof -
  obtain maxRisk risky where
    l: "maxRiskLoop (tokenRiskScores rm) (extractTokens opp) (0, None) = (maxRisk, risky)"
    by (cases "maxRiskLoop (tokenRiskScores rm) (extractTokens opp) (0, None)") auto
  have "0 \<le> fst (maxRiskLoop (tokenRiskScores rm) (extractTokens opp) (0, None))"
    by (rule maxRiskLoop_lower)
  with l have "0 \<le> maxRisk" by simp
  then show ?thesis
    by (simp add: checkTokenRisk_def l Let_def effective_weight_def risk_check_scaled)
qed

lemma checkDexRisk_scaled:
  "0 < effective_weight (checkDexRisk rm opp) \<and> scaled (checkDexRisk rm opp) 1"
proof -
  obtain maxRisk risky where
    l: "maxRiskLoop (dexRiskScores rm) (extractDexes opp) (0, None) = (maxRisk, risky)"
    by (cases "maxRiskLoop (dexRiskScores rm) (extractDexes opp) (0, None)") auto
  have "0 \<le> fst (maxRiskLoop (dexRiskScores rm) (extractDexes opp) (0, None))"
    by (rule maxRiskLoop_lower)
  with l have "0 \<le> maxRisk" by simp
  then show ?thesis
    by (simp add: checkDexRisk_def l Let_def effective_weight_def risk_check_scaled)
qed

lemma estimateSlippage_nonneg: "0 \<le> estimateSlippage opp"
  by (simp add: estimateSlippage_def Let_def)

lemma checkSlippage_scaled:
  "0 < effective_weight (checkSlippage rm opp) \<and> scaled (checkSlippage rm opp) 1"
  using estimateSlippage_nonneg [of opp]
  by (simp add: checkSlippage_def Let_def effective_weight_def risk_check_scaled)

lemma run_checks_scaled:
  assumes "run_checks rm opp = Inr cs" and "0 < maxPositionSize rm" and "0 < maxGasPrice rm"
    and "d \<in> set cs"
  shows "0 < effective_weight d \<and> scaled d 1"
proof -
  from assms(1) obtain p l where
    p: "checkProfitRatio rm opp = Inr p" and l: "checkLiquidity rm opp = Inr l" and
    cs: "cs = [checkDailyLossLimit rm, checkPositionSize rm opp, checkGasPrice rm opp, p,
               checkTokenRisk rm opp, checkDexRisk rm opp, checkSlippage rm opp, l]"
    using run_checks_Inr by blast
  from assms(4) cs consider
      "d = checkDailyLossLimit rm" | "d = checkPositionSize rm opp" | "d = checkGasPrice rm opp"
    | "d = p" | "d = checkTokenRisk rm opp" | "d = checkDexRisk rm opp"
    | "d = checkSlippage rm opp" | "d = l"
    by auto
  then show ?thesis
    using checkDailyLossLimit_scaled [of rm] checkPositionSize_scaled [OF assms(2), of opp]
      checkGasPrice_scaled [OF assms(3), of opp] checkProfitRatio_scaled [OF p]
      checkTokenRisk_scaled [of rm opp] checkDexRisk_scaled [of rm opp]
      checkSlippage_scaled [of rm opp] checkLiquidity_scaled [OF l]
    by cases simp_all
qed

lemma scaled_weaken: "scaled c 1 \<Longrightarrow> scaled c 2"
  by (auto simp add: scaled_def)

text \<open>
  So for the checks of one assessment: with positive position and gas price limits, a
  passed check replaced by a failed check of at least its weight gives a score that is a
  finite number and not lower.
\<close>

lemma assessment_checks_monotone:
  assumes "run_checks rm opp = Inr cs" and "0 < maxPositionSize rm" and "0 < maxGasPrice rm"
    and "i < length cs" and "passed (cs ! i)"
    and "\<not> passed c'" and "effective_weight (cs ! i) \<le> effective_weight c'"
  shows "\<exists>a b. calculateRiskScore cs = Fin a \<and> calculateRiskScore (cs[i := c']) = Fin b
               \<and> a \<le> b"
proof -
  have all: "\<And>d. d \<in> set cs \<Longrightarrow> 0 < effective_weight d \<and> scaled d 2"
    using run_checks_scaled [OF assms(1) assms(2) assms(3)] scaled_weaken by blast
  have split: "cs = take i cs @ cs ! i # drop (Suc i) cs"
    using assms(4) by (rule id_take_nth_drop)
  have upd: "cs[i := c'] = take i cs @ c' # drop (Suc i) cs"
    using assms(4) by (rule upd_conv_take_nth_drop)
  have others: "\<forall>d\<in>set (take i cs @ drop (Suc i) cs). 0 < effective_weight d \<and> scaled d 2"
    using all by (auto dest: in_set_takeD in_set_dropD)
  have here: "0 < effective_weight (cs ! i)" "scaled (cs ! i) 2"
    using all [of "cs ! i"] assms(4) by simp_all
  from heavier_weight_never_lowers_score
         [OF others here(1) assms(5) here(2) assms(6) assms(7)]
  show ?thesis
    using split upd by simp
qed

section \<open>The score of an assessment whose checks all passed\<close>

text \<open>
  A passed check adds at most 5 times its weight to the total, so the composite score of
  checks that all passed is at most 5. The numbers of the model are exact where those of
  the code are doubles; with a ceiling of 7, the default, the comparison of the score with
  the ceiling is decided by a margin of 2 and the approval is that of the checks alone.
\<close>

lemma js_sum_passed_bounded:
  assumes "\<forall>d\<in>set cs. 0 < effective_weight d \<and> scaled d 1 \<and> passed d"
  shows "\<exists>r. js_sum (map penalty cs) = Fin r \<and> r \<le> 5 * sum_list (map effective_weight cs)"
  using assms
proof (induction cs)
  case Nil
  show ?case by simp
next
  case (Cons c cs)
  then obtain r where r: "js_sum (map penalty cs) = Fin r"
      "r \<le> 5 * sum_list (map effective_weight cs)"
    by auto
  from Cons.prems have w: "0 < effective_weight c" and s: "scaled c 1" and p: "passed c"
    by simp_all
  from penalty_passed [OF p s w] obtain x where x: "penalty c = Fin x" "x \<le> effective_weight c * 5"
    by auto
  from r x show ?case by (simp add: algebra_simps)
qed

lemma passing_score_at_most_5:
  assumes "run_checks rm opp = Inr cs" and "0 < maxPositionSize rm" and "0 < maxGasPrice rm"
    and "list_all passed cs"
  shows "\<exists>s. calculateRiskScore cs = Fin s \<and> s \<le> 5"
proof -
  have all: "\<forall>d\<in>set cs. 0 < effective_weight d \<and> scaled d 1 \<and> passed d"
    using run_checks_scaled [OF assms(1) assms(2) assms(3)] assms(4)
    by (simp add: list_all_iff)
  from js_sum_passed_bounded [OF all] obtain r where r: "js_sum (map penalty cs) = Fin r"
      "r \<le> 5 * sum_list (map effective_weight cs)"
    by blast
  from run_checks_length [OF assms(1)] have "cs \<noteq> []" by auto
  with all have W: "0 < sum_list (map effective_weight cs)"
    by (intro weights_positive) simp_all
  from r(2) W have q: "r / sum_list (map effective_weight cs) \<le> 5"
    by (simp add: pos_divide_le_eq)
  from r(1) W have "calculateRiskScore cs
      = js_min (Fin 10) (Fin (r / sum_list (map effective_weight cs)))"
    by (simp add: calculateRiskScore_sum)
  also from q have "\<dots> = Fin (r / sum_list (map effective_weight cs))"
    by simp
  finally show ?thesis using q by blast
qed

lemma limits_checkDailyReset [simp]:
  "maxPositionSize (checkDailyReset now rm) = maxPositionSize rm"
  "maxGasPrice (checkDailyReset now rm) = maxGasPrice rm"
  by (simp_all add: checkDailyReset_def Let_def)

lemma default_ceiling_approves_passing_checks:
  assumes "config rm = load_risk_config deployment" and "maxRiskScore deployment = None"
    and "0 < maxPositionSize rm" and "0 < maxGasPrice rm"
  shows "approved (fst (assessOpportunity sz now rm opp)) \<longleftrightarrow>
           (\<exists>cs. run_checks (checkDailyReset now rm) opp = Inr cs \<and> list_all passed cs)"
proof -
  have ceiling: "maxRiskScore (config rm) = Some 7"
    using assms(1,2) by (simp add: load_risk_config_ceiling)
  have below: "js_lt (calculateRiskScore cs) (Fin 7)"
    if "run_checks (checkDailyReset now rm) opp = Inr cs" and "list_all passed cs" for cs
  proof -
    from passing_score_at_most_5 [OF that(1) _ _ that(2)] assms(3,4)
    obtain s where "calculateRiskScore cs = Fin s" "s \<le> 5" by auto
    then show ?thesis by simp
  qed
  show ?thesis
    using ceiling below by (auto simp add: assessOpportunity_approved_iff)
qed

end
